theory Spec2Isabelle
  imports Main "HOL-Library.List_Lexorder" "HOL-Library.Sublist" "HOL-Library.Multiset"
begin

section \<open>Strings\<close>

text \<open>
  A Python \<open>str\<close> is a sequence of Unicode code points and \<open>len\<close> counts code points, so a
  string is modelled as a list of code points, each a natural number. Literals of the
  source are ASCII and are written through \<open>str\<close>.
\<close>

type_synonym pystr = "nat list"

definition str :: "string \<Rightarrow> pystr" where
  "str cs = map of_char cs"

definition NL :: pystr where
  "NL = [10]"

section \<open>The chunker\<close>

text \<open>
  \<open>str.splitlines(keepends=True)\<close>: the line boundaries of Python are LF, VT, FF, CR,
  FS, GS, RS, NEL, LINE SEPARATOR and PARAGRAPH SEPARATOR, and CR LF counts as one
  boundary. The first argument is the line scanned so far.
\<close>

definition is_linebreak :: "nat \<Rightarrow> bool" where
  "is_linebreak c \<longleftrightarrow>
     c = 0x0A \<or> c = 0x0B \<or> c = 0x0C \<or> c = 0x0D \<or> c = 0x1C \<or> c = 0x1D \<or> c = 0x1E
     \<or> c = 0x85 \<or> c = 0x2028 \<or> c = 0x2029"

fun splitlines_keepends :: "pystr \<Rightarrow> pystr \<Rightarrow> pystr list" where
  "splitlines_keepends line [] = (if line = [] then [] else [line])"
| "splitlines_keepends line [c] = [line @ [c]]"
| "splitlines_keepends line (c # d # ds) =
     (if is_linebreak c then
        (if c = 0x0D \<and> d = 0x0A then (line @ [c, d]) # splitlines_keepends [] ds
         else (line @ [c]) # splitlines_keepends [] (d # ds))
      else splitlines_keepends (line @ [c]) (d # ds))"

definition splitlines :: "pystr \<Rightarrow> pystr list" where
  "splitlines content = splitlines_keepends [] content"

text \<open>
  The loop of \<open>chunk_content\<close> over the lines, on the state
  \<open>(chunks, current_chunk_lines, current_length)\<close>; \<open>chunk_size\<close> is a Python integer.
\<close>

fun chunk_loop ::
  "int \<Rightarrow> pystr list \<Rightarrow> pystr list \<times> pystr list \<times> int \<Rightarrow> pystr list \<times> pystr list \<times> int"
where
  "chunk_loop chunk_size [] st = st"
| "chunk_loop chunk_size (line # lines) (chunks, current_chunk_lines, current_length) =
     (if current_length + int (length line) > chunk_size \<and> current_chunk_lines \<noteq> [] then
        chunk_loop chunk_size lines (chunks @ [concat current_chunk_lines], [line], int (length line))
      else
        chunk_loop chunk_size lines
          (chunks, current_chunk_lines @ [line], current_length + int (length line)))"

definition chunk_content :: "pystr \<Rightarrow> int \<Rightarrow> pystr list" where
  "chunk_content content chunk_size =
     (if content = [] then []
      else
        (case chunk_loop chunk_size (splitlines content) ([], [], 0) of
           (chunks, current_chunk_lines, current_length) \<Rightarrow>
             if current_chunk_lines \<noteq> [] then chunks @ [concat current_chunk_lines]
             else chunks))"


section \<open>Case mapping and the language of a file\<close>

text \<open>
  \<open>str.lower\<close>, \<open>str.upper\<close> and \<open>str.capitalize\<close> of Python follow the case
  mapping of the Unicode character database, which is no part of the program. What the
  development uses of it is this: on a string of ASCII characters, they map the letters A
  to Z and a to z and leave the rest; and lowercasing a lowercased string changes nothing.
  The type \<open>unicode\<close> holds the case mappings with these properties, and what is proved
  holds for every one of them.
\<close>

definition is_ascii :: "pystr \<Rightarrow> bool" where
  "is_ascii s = list_all (\<lambda>c. c < 128) s"

definition ascii_lower :: "nat \<Rightarrow> nat" where
  "ascii_lower c = (if 65 \<le> c \<and> c \<le> 90 then c + 32 else c)"

definition ascii_upper :: "nat \<Rightarrow> nat" where
  "ascii_upper c = (if 97 \<le> c \<and> c \<le> 122 then c - 32 else c)"

definition ascii_capitalize :: "pystr \<Rightarrow> pystr" where
  "ascii_capitalize s = (case s of [] \<Rightarrow> [] | c # cs \<Rightarrow> ascii_upper c # map ascii_lower cs)"

record case_functions =
  lower_fn :: "pystr \<Rightarrow> pystr"
  upper_fn :: "pystr \<Rightarrow> pystr"
  capitalize_fn :: "pystr \<Rightarrow> pystr"

definition case_mapping :: "case_functions \<Rightarrow> bool" where
  "case_mapping m \<longleftrightarrow>
     (\<forall>s. is_ascii s \<longrightarrow>
        lower_fn m s = map ascii_lower s \<and> upper_fn m s = map ascii_upper s
        \<and> capitalize_fn m s = ascii_capitalize s)
     \<and> (\<forall>s. lower_fn m (lower_fn m s) = lower_fn m s)"

typedef unicode = "{m. case_mapping m}"
proof
  show "\<lparr>lower_fn = map ascii_lower, upper_fn = map ascii_upper,
          capitalize_fn = ascii_capitalize\<rparr> \<in> {m. case_mapping m}"
    by (simp add: case_mapping_def ascii_lower_def)
qed

setup_lifting type_definition_unicode

lift_definition py_lower :: "unicode \<Rightarrow> pystr \<Rightarrow> pystr" is lower_fn .

lift_definition py_upper :: "unicode \<Rightarrow> pystr \<Rightarrow> pystr" is upper_fn .

lift_definition py_capitalize :: "unicode \<Rightarrow> pystr \<Rightarrow> pystr" is capitalize_fn .

text \<open>
  An excerpt of the Unicode case mapping, for concrete runs: exact on ASCII, on
  U+017F LATIN SMALL LETTER LONG S (a lowercase letter whose uppercase is S) and on
  U+0131 LATIN SMALL LETTER DOTLESS I (a lowercase letter whose uppercase is I). It is
  used on strings of these characters only.
\<close>

definition excerpt_upper :: "nat \<Rightarrow> nat" where
  "excerpt_upper c = (if c = 0x17F then 0x53 else if c = 0x131 then 0x49 else ascii_upper c)"

lift_definition unicode_excerpt :: unicode is
  "\<lparr>lower_fn = map ascii_lower, upper_fn = map excerpt_upper,
    capitalize_fn = (\<lambda>s. case s of [] \<Rightarrow> [] | c # cs \<Rightarrow> excerpt_upper c # map ascii_lower cs)\<rparr>"
proof -
  have u: "is_ascii s \<Longrightarrow> map excerpt_upper s = map ascii_upper s" for s
    by (induction s) (simp_all add: is_ascii_def excerpt_upper_def)
  have c: "is_ascii s \<Longrightarrow>
      (case s of [] \<Rightarrow> [] | c # cs \<Rightarrow> excerpt_upper c # map ascii_lower cs) = ascii_capitalize s" for s
    by (cases s) (simp_all add: is_ascii_def excerpt_upper_def ascii_capitalize_def)
  show "case_mapping \<lparr>lower_fn = map ascii_lower, upper_fn = map excerpt_upper,
    capitalize_fn = (\<lambda>s. case s of [] \<Rightarrow> [] | c # cs \<Rightarrow> excerpt_upper c # map ascii_lower cs)\<rparr>"
    by (simp add: case_mapping_def u c ascii_lower_def)
qed

text \<open>The dictionary \<open>SUPPORTED_EXTENSIONS\<close>; its keys are distinct.\<close>

definition SUPPORTED_EXTENSIONS :: "pystr \<rightharpoonup> pystr" where
  "SUPPORTED_EXTENSIONS = map_of
     [(str ''.cs'', str ''csharp''),
      (str ''.ts'', str ''typescript''),
      (str ''.java'', str ''java''),
      (str ''.py'', str ''python''),
      (str ''.js'', str ''javascript''),
      (str ''.json'', str ''json''),
      (str ''.config'', str ''config''),
      (str ''.xml'', str ''xml''),
      (str ''.yaml'', str ''yaml''),
      (str ''.yml'', str ''yaml''),
      (str ''.env'', str ''environment configuration''),
      (str ''.txt'', str ''text''),
      (str ''.sql'', str ''sql''),
      (str ''.go'', str ''golang''),
      (str ''.php'', str ''php'')]"

definition get_file_type :: "unicode \<Rightarrow> pystr \<Rightarrow> pystr" where
  "get_file_type u extension =
     (case SUPPORTED_EXTENSIONS (py_lower u extension) of
        Some file_type \<Rightarrow> file_type
      | None \<Rightarrow> str ''unknown'')"

text \<open>
  \<open>str.strip()\<close> removes the white space of Python (the characters for which
  \<open>str.isspace\<close> holds) from both ends.
\<close>

definition is_whitespace :: "nat \<Rightarrow> bool" where
  "is_whitespace c \<longleftrightarrow>
     (0x09 \<le> c \<and> c \<le> 0x0D) \<or> (0x1C \<le> c \<and> c \<le> 0x20) \<or> c = 0x85 \<or> c = 0xA0
     \<or> c = 0x1680 \<or> (0x2000 \<le> c \<and> c \<le> 0x200A) \<or> c = 0x2028 \<or> c = 0x2029
     \<or> c = 0x202F \<or> c = 0x205F \<or> c = 0x3000"

definition py_strip :: "pystr \<Rightarrow> pystr" where
  "py_strip s = rev (dropWhile is_whitespace (rev (dropWhile is_whitespace s)))"

text \<open>\<open>str(n)\<close> for a natural number: its decimal digits.\<close>

function str_nat :: "nat \<Rightarrow> pystr" where
  "str_nat n = (if n < 10 then [48 + n] else str_nat (n div 10) @ [48 + n mod 10])"
  by pat_completeness auto
termination
  by (relation "measure id") auto

declare str_nat.simps [simp del]

section \<open>The inference client\<close>

text \<open>
  The values of \<open>json.loads\<close>. A float keeps no value here: the program only looks at
  the type of what it finds. An object is the list of its members, with distinct keys.
\<close>

datatype json =
  JNull | JBool bool | JInt int | JFloat | JStr pystr | JArr "json list"
  | JObj "(pystr \<times> json) list"

text \<open>
  What the program reads of a \<open>requests.Response\<close>: the status, the reason phrase and
  the URL (they make the message of the \<open>HTTPError\<close>), the body as text, and what
  \<open>response.json()\<close> gives, a value or a decoding error with its message.
\<close>

record response =
  status_code :: int
  resp_reason :: pystr
  resp_url :: pystr
  resp_text :: pystr
  resp_json :: "pystr + json"

text \<open>
  The exceptions the program tells apart, all instances of \<open>Exception\<close>:
  \<open>requests.exceptions.ConnectionError\<close>; \<open>requests.exceptions.HTTPError\<close>, which the
  library raises in \<open>raise_for_status\<close> only, with its message and the response at
  hand; and any other exception, with \<open>str(e)\<close>.
\<close>

datatype py_exn = ConnectionError | HTTPError pystr response | Exception pystr

text \<open>
  What \<open>requests.post\<close> does: it raises a connection error, raises another exception
  (a timeout, an invalid URL, ...), or returns a response.
\<close>

datatype post_outcome = PostConnectionError | PostException pystr | PostResponse response

text \<open>
  The body of a request: \<open>model\<close>, \<open>prompt\<close>, and the options \<open>temperature\<close> (as
  \<open>json.dumps\<close> writes it) and \<open>num_predict\<close>; \<open>stream\<close> is always off.
\<close>

record payload =
  pl_model :: pystr
  pl_prompt :: pystr
  pl_temperature :: pystr
  pl_num_predict :: int

text \<open>
  The effects of a run so far: the requests posted and the files written, oldest first.
\<close>

record world =
  posted :: "payload list"
  written :: "(pystr \<times> pystr) list"

datatype encoding = UTF8 | Latin1

datatype read_outcome = ReadOk pystr | ReadUnicodeDecodeError | ReadException

text \<open>
  The environment of a run: the configuration read from \<open>config.json\<close>, the endpoint,
  the file system and the functions of \<open>os.path\<close>. What the endpoint and the file system
  answer may depend on everything the run has done before, so they take the \<open>world\<close>.
  \<open>os_makedirs\<close> gives the message of the \<open>OSError\<close> it raises, if it raises, and
  \<open>sys_print\<close> the message of the exception that \<open>print\<close> raises on a text, if it
  raises: a \<open>UnicodeEncodeError\<close> when the standard output cannot encode the text.
  The model runs \<open>print\<close> in the \<open>except\<close> clauses of the inference functions,
  where the program prints the body of a response or the message of an exception of the
  request; the other \<open>print\<close> calls of the program (fixed texts, paths, counts and
  the messages of file errors) are taken to succeed.
\<close>

record env =
  unicode_data :: unicode
  sys_print :: "world \<Rightarrow> pystr \<Rightarrow> pystr option"
  OLLAMA_API_URL :: pystr
  OLLAMA_MODEL :: pystr
  CHUNK_SIZE_CHARACTERS :: int
  requests_post :: "world \<Rightarrow> pystr \<Rightarrow> payload \<Rightarrow> post_outcome"
  os_path_isdir :: "world \<Rightarrow> pystr \<Rightarrow> bool"
  os_walk :: "world \<Rightarrow> pystr \<Rightarrow> (pystr \<times> pystr list) list"
  os_makedirs :: "world \<Rightarrow> pystr \<Rightarrow> pystr option"
  open_read :: "world \<Rightarrow> pystr \<Rightarrow> encoding \<Rightarrow> read_outcome"
  open_write :: "world \<Rightarrow> pystr \<Rightarrow> pystr \<Rightarrow> bool"
  os_path_join :: "pystr \<Rightarrow> pystr \<Rightarrow> pystr"
  os_path_splitext :: "pystr \<Rightarrow> pystr \<times> pystr"
  os_path_basename :: "pystr \<Rightarrow> pystr"
  os_path_dirname :: "pystr \<Rightarrow> pystr"
  os_path_relpath :: "pystr \<Rightarrow> pystr \<Rightarrow> pystr"

text \<open>
  \<open>response.raise_for_status()\<close> raises for the statuses 400 to 599, with the message
  that the library builds.
\<close>

definition http_error_msg :: "response \<Rightarrow> pystr" where
  "http_error_msg response =
     (if 400 \<le> status_code response \<and> status_code response < 500 then
        concat
           [str_nat (nat (status_code response)), str '' Client Error: '',
            resp_reason response, str '' for url: '', resp_url response]
      else if 500 \<le> status_code response \<and> status_code response < 600 then
        concat
           [str_nat (nat (status_code response)), str '' Server Error: '',
            resp_reason response, str '' for url: '', resp_url response]
      else [])"

definition raise_for_status :: "response \<Rightarrow> py_exn + unit" where
  "raise_for_status response =
     (if 400 \<le> status_code response \<and> status_code response < 600 then
        Inl (HTTPError (http_error_msg response) response)
      else Inr ())"

definition type_name :: "json \<Rightarrow> pystr" where
  "type_name v =
     (case v of JNull \<Rightarrow> str ''NoneType'' | JBool _ \<Rightarrow> str ''bool'' | JInt _ \<Rightarrow> str ''int''
      | JFloat \<Rightarrow> str ''float'' | JStr _ \<Rightarrow> str ''str'' | JArr _ \<Rightarrow> str ''list''
      | JObj _ \<Rightarrow> str ''dict'')"

text \<open>
  \<open>result['response']\<close>: a \<open>KeyError\<close> on an object without the key, a \<open>TypeError\<close> on
  anything but an object.
\<close>

definition subscript_response :: "json \<Rightarrow> py_exn + json" where
  "subscript_response result =
     (case result of
        JObj members \<Rightarrow>
          (case map_of members (str ''response'') of
             Some v \<Rightarrow> Inr v
           | None \<Rightarrow> Inl (Exception ([39] @ str ''response'' @ [39])))
      | JArr _ \<Rightarrow> Inl (Exception (str ''list indices must be integers or slices, not str''))
      | JStr _ \<Rightarrow> Inl (Exception (str ''string indices must be integers, not '' @ [39] @ str ''str'' @ [39]))
      | _ \<Rightarrow> Inl (Exception ([39] @ type_name result @ [39] @ str '' object is not subscriptable'')))"

text \<open>\<open>.strip()\<close> on what was found: an \<open>AttributeError\<close> on anything but a string.\<close>

definition strip_method :: "json \<Rightarrow> py_exn + pystr" where
  "strip_method v =
     (case v of
        JStr s \<Rightarrow> Inr (py_strip s)
      | _ \<Rightarrow> Inl (Exception ([39] @ type_name v @ [39] @ str '' object has no attribute ''
                 @ [39] @ str ''strip'' @ [39])))"

text \<open>
  The \<open>try\<close> block that \<open>document_with_ollama\<close>, \<open>call_ollama\<close> and \<open>call_ollama_api\<close>
  share: post, \<open>raise_for_status\<close>, \<open>response.json()\<close>, \<open>result['response'].strip()\<close>.
\<close>

definition ollama_try :: "env \<Rightarrow> world \<Rightarrow> payload \<Rightarrow> py_exn + pystr" where
  "ollama_try env w pl =
     (case requests_post env w (OLLAMA_API_URL env) pl of
        PostConnectionError \<Rightarrow> Inl ConnectionError
      | PostException msg \<Rightarrow> Inl (Exception msg)
      | PostResponse response \<Rightarrow>
          (case raise_for_status response of
             Inl e \<Rightarrow> Inl e
           | Inr _ \<Rightarrow>
               (case resp_json response of
                  Inl msg \<Rightarrow> Inl (Exception msg)
                | Inr result \<Rightarrow>
                    (case subscript_response result of
                       Inl e \<Rightarrow> Inl e
                     | Inr v \<Rightarrow> strip_method v))))"

definition log_post :: "world \<Rightarrow> payload \<Rightarrow> world" where
  "log_post w pl = w\<lparr>posted := posted w @ [pl]\<rparr>"

text \<open>
  The \<open>print\<close> calls of an \<open>except\<close> clause, in order: the first one that raises
  ends the clause with its exception.
\<close>

fun print_lines :: "env \<Rightarrow> world \<Rightarrow> pystr list \<Rightarrow> py_exn + unit" where
  "print_lines env w [] = Inr ()"
| "print_lines env w (line # lines) =
     (case sys_print env w line of
        Some msg \<Rightarrow> Inl (Exception msg)
      | None \<Rightarrow> print_lines env w lines)"

text \<open>
  What the three \<open>except\<close> clauses print; the clauses of \<open>document_with_ollama\<close>,
  \<open>call_ollama\<close> and \<open>call_ollama_api\<close> print the same lines.
\<close>

definition except_prints :: "env \<Rightarrow> py_exn \<Rightarrow> pystr list" where
  "except_prints env e =
     (case e of
        ConnectionError \<Rightarrow>
          [concat
            [str ''Error: Could not connect to Ollama at '', OLLAMA_API_URL env, str ''.''],
           concat
            [str ''Please ensure Ollama is running and the specified model is downloaded.'']]
      | HTTPError err response \<Rightarrow>
          [concat
            [str ''HTTP error occurred: '', err, str '' - Response: '', resp_text response]]
      | Exception msg \<Rightarrow>
          [concat
            [str ''An unexpected error occurred during Ollama request: '', msg]])"

text \<open>
  An \<open>except\<close> clause: it prints, then returns its text; when a \<open>print\<close> raises, the
  exception leaves the function.
\<close>

definition except_clause :: "env \<Rightarrow> world \<Rightarrow> py_exn \<Rightarrow> pystr \<Rightarrow> py_exn + pystr" where
  "except_clause env w e error_text =
     (case print_lines env w (except_prints env e) of
        Inl raised \<Rightarrow> Inl raised
      | Inr _ \<Rightarrow> Inr error_text)"

subsection \<open>\<open>code_documentation.py\<close>\<close>

definition document_with_ollama_prompt :: "pystr \<Rightarrow> pystr \<Rightarrow> pystr \<Rightarrow> pystr \<Rightarrow> pystr" where
  "document_with_ollama_prompt chunk_text file_name file_type part_info =
     concat
       [str ''You are an expert software engineer and technical writer.'', NL,
        str ''Your task is to analyze the following '', file_type,
        str '' code or configuration snippet from the file '', [39], file_name, [39],
        str ''.'', NL, part_info, str '' # This will be like '', [34], str ''(Part 1 of 3)'',
        [34], str '' or empty for single chunks.'', NL, NL,
        str ''Provide a detailed, human-readable explanation of what this code/config snippet does, its purpose, and its inner workings.'',
        NL,
        str ''Focus on clarity and conciseness, making it easy for non-experts to understand.'',
        NL, NL, str ''**Key Requirements:**'', NL,
        str ''1.  **For Code:** Identify any classes, functions, methods, or significant variables/enums within this snippet.'',
        NL,
        str ''    **Bold their names** using Markdown (e.g., **ClassName**, **function_name()**, **CONSTANT_NAME**).'',
        NL,
        str ''    Explain their roles and how they contribute to the overall functionality.'',
        NL,
        str ''2.  **For Configuration Files:** Explain the structure, purpose of different sections/keys, and what values they typically hold.'',
        NL,
        str ''3.  **Overall Context:** If this is part of a larger file, try to infer its context or contribution to the whole.'',
        NL, NL, str ''Code/Configuration snippet:'', NL, chunk_text, NL,
        str ''Documentation:'', NL]"

text \<open>The three \<open>except\<close> clauses of \<open>document_with_ollama\<close> and of \<open>call_ollama\<close>.\<close>

definition document_error_text :: "env \<Rightarrow> py_exn \<Rightarrow> pystr" where
  "document_error_text env e =
     (case e of
        ConnectionError \<Rightarrow>
         concat
           [str ''**Error: Could not connect to Ollama.** Please ensure it'', [39],
            str ''s running at '', OLLAMA_API_URL env, str '' and the model '', [39],
            OLLAMA_MODEL env, [39], str '' is downloaded.'']
      | HTTPError err response \<Rightarrow>
         concat
           [str ''**Error from Ollama API:** '', resp_text response,
            str ''. Check Ollama logs for details.'']
      | Exception msg \<Rightarrow>
         concat
           [str ''**Error:** An unexpected error occurred while communicating with Ollama: '',
            msg])"

text \<open>The dictionary \<open>payload\<close> of \<open>document_with_ollama\<close>.\<close>

definition document_with_ollama_payload :: "env \<Rightarrow> pystr \<Rightarrow> payload" where
  "document_with_ollama_payload env prompt =
     \<lparr>pl_model = OLLAMA_MODEL env, pl_prompt = prompt,
      pl_temperature = str ''0.2'', pl_num_predict = 1024\<rparr>"

definition document_with_ollama ::
  "env \<Rightarrow> world \<Rightarrow> pystr \<Rightarrow> pystr \<Rightarrow> pystr \<Rightarrow> pystr \<Rightarrow> (py_exn + pystr) \<times> world"
where
  "document_with_ollama env w chunk_text file_name file_type part_info =
     (let prompt = document_with_ollama_prompt chunk_text file_name file_type part_info;
          pl = document_with_ollama_payload env prompt
      in ((case ollama_try env w pl of
             Inr result \<Rightarrow> Inr result
           | Inl e \<Rightarrow> except_clause env (log_post w pl) e (document_error_text env e)),
          log_post w pl))"

subsection \<open>\<open>code_analyzer.py\<close>\<close>




subsection \<open>\<open>deep_code_documentation.py\<close>\<close>

text \<open>The dictionary \<open>payload\<close> of \<open>call_ollama\<close>.\<close>

definition call_ollama_payload :: "pystr \<Rightarrow> pystr \<Rightarrow> pystr \<Rightarrow> int \<Rightarrow> payload" where
  "call_ollama_payload prompt model temperature num_predict =
     \<lparr>pl_model = model, pl_prompt = prompt,
      pl_temperature = temperature, pl_num_predict = num_predict\<rparr>"

definition call_ollama ::
  "env \<Rightarrow> world \<Rightarrow> pystr \<Rightarrow> pystr \<Rightarrow> pystr \<Rightarrow> int \<Rightarrow> (py_exn + pystr) \<times> world"
where
  "call_ollama env w prompt model temperature num_predict =
     (let pl = call_ollama_payload prompt model temperature num_predict
      in ((case ollama_try env w pl of
             Inr result \<Rightarrow> Inr result
           | Inl e \<Rightarrow> except_clause env (log_post w pl) e (document_error_text env e)),
          log_post w pl))"

definition summary_prompt :: "pystr \<Rightarrow> pystr \<Rightarrow> pystr \<Rightarrow> pystr" where
  "summary_prompt file_content file_name file_type =
     concat
       [str ''You are an expert software engineer and technical writer.'', NL,
        str ''    Analyze the following '', file_type,
        str '' code/configuration from the file '', [39], file_name, [39], str ''.'', NL,
        str ''    Provide a concise, high-level summary of its primary purpose, what problem it solves, and its main functionalities.'',
        NL, str ''    Keep it to 2-3 paragraphs.'', NL, NL, str ''    Code/Configuration:'',
        NL, str ''    ```'', file_type, NL, str ''    '', file_content, NL, str ''    ```'',
        NL, NL, str ''    Summary:'', NL, str ''    '']"

definition components_prompt :: "pystr \<Rightarrow> pystr \<Rightarrow> pystr \<Rightarrow> pystr" where
  "components_prompt file_content file_name file_type =
     concat
       [str ''You are an expert software engineer and technical writer.'', NL,
        str ''    Analyze the following '', file_type,
        str '' code/configuration from the file '', [39], file_name, [39], str ''.'', NL,
        str ''    Identify and explain the purpose and role of all significant classes, functions, methods, variables, constants, and enums.'',
        NL, str ''    For each identified component, provide a clear, concise description.'',
        NL,
        str ''    **Bold their names** using Markdown (e.g., **ClassName**, **function_name()**, **CONSTANT_NAME**).'',
        NL, str ''    Organize this information clearly using subheadings (e.g., '', [39],
        str ''Classes'', [39], str '', '', [39], str ''Functions'', [39], str '', '', [39],
        str ''Variables'', [39], str '').'', NL, NL, str ''    Code/Configuration:'', NL,
        str ''    ```'', file_type, NL, str ''    '', file_content, NL, str ''    ```'', NL,
        NL, str ''    Detailed Explanation of Components:'', NL, str ''    '']"

definition examples_prompt :: "pystr \<Rightarrow> pystr \<Rightarrow> pystr \<Rightarrow> pystr" where
  "examples_prompt file_content file_name file_type =
     concat
       [str ''You are an expert software engineer and technical writer.'', NL,
        str ''    Consider the following '', file_type, str '' code from the file '', [39],
        file_name, [39], str ''.'', NL,
        str ''    Does this code require usage examples to be properly understood?'', NL,
        str ''    If YES, provide 1-3 clear and concise code examples demonstrating how to use the main functionalities of this code.'',
        NL, str ''    Use code blocks for examples. Explain what each example does.'', NL,
        str ''    If NO (e.g., it'', [39],
        str ''s a configuration file, a simple script that runs on its own, or a highly internal utility), just state '',
        [39], str ''N/A'', [39], str '' or '', [39],
        str ''No specific usage examples are typically required for this type of file.'',
        [39], str ''.'', NL, NL, str ''    Code/Configuration:'', NL, str ''    ```'',
        file_type, NL, str ''    '', file_content, NL, str ''    ```'', NL, NL,
        str ''    Usage Examples:'', NL, str ''    '']"

text \<open>
  \<open>document_file_with_ollama\<close>: the three calls over the whole file; the third one
  passes \<open>temperature=0.3\<close>, the others the defaults of \<open>call_ollama\<close>. No \<open>try\<close>
  stands around the calls: an exception that leaves \<open>call_ollama\<close> leaves this function.
\<close>

definition document_file_with_ollama ::
  "env \<Rightarrow> world \<Rightarrow> pystr \<Rightarrow> pystr \<Rightarrow> pystr \<Rightarrow> (py_exn + pystr) \<times> world"
where
  "document_file_with_ollama env w file_content file_name file_type =
     (let markdown_doc = []
      in case call_ollama env w (summary_prompt file_content file_name file_type)
                (OLLAMA_MODEL env) (str ''0.2'') 1024 of
           (Inl e, w1) \<Rightarrow> (Inl e, w1)
         | (Inr summary, w1) \<Rightarrow>
             (let markdown_doc = markdown_doc @ str ''## Overall Summary'' @ NL @ NL;
                  markdown_doc = markdown_doc @ summary @ NL @ NL;
                  markdown_doc = markdown_doc @ str ''---'' @ NL @ NL
              in case call_ollama env w1 (components_prompt file_content file_name file_type)
                        (OLLAMA_MODEL env) (str ''0.2'') 1024 of
                   (Inl e, w2) \<Rightarrow> (Inl e, w2)
                 | (Inr components_doc, w2) \<Rightarrow>
                     (let markdown_doc =
                            markdown_doc @ str ''## Properties, Variables, and Functions'' @ NL @ NL;
                          markdown_doc = markdown_doc @ components_doc @ NL @ NL;
                          markdown_doc = markdown_doc @ str ''---'' @ NL @ NL
                      in case call_ollama env w2
                                (examples_prompt file_content file_name file_type)
                                (OLLAMA_MODEL env) (str ''0.3'') 1024 of
                           (Inl e, w3) \<Rightarrow> (Inl e, w3)
                         | (Inr examples_doc, w3) \<Rightarrow>
                             (let markdown_doc =
                                    markdown_doc @ str ''## Examples on How to Use the Code''
                                      @ NL @ NL;
                                  markdown_doc = markdown_doc @ examples_doc @ NL @ NL;
                                  markdown_doc = markdown_doc @ str ''---'' @ NL @ NL
                              in (Inr markdown_doc, w3)))))"

section \<open>The pipelines\<close>

subsection \<open>Scanning, reading and writing\<close>

text \<open>
  \<open>scan_directory\<close> of \<open>code_documentation.py\<close>: the files of the walk whose
  lowercased extension is a key of \<open>SUPPORTED_EXTENSIONS\<close>, in the order of the walk.
\<close>

definition scan_directory :: "env \<Rightarrow> world \<Rightarrow> pystr \<Rightarrow> pystr list" where
  "scan_directory env w root_dir =
     concat (map (\<lambda>(dirpath, filenames).
         map (os_path_join env dirpath)
           (filter (\<lambda>filename.
                SUPPORTED_EXTENSIONS (py_lower (unicode_data env) (snd (os_path_splitext env filename))) \<noteq> None)
              filenames))
       (os_walk env w root_dir))"

text \<open>
  \<open>read_file_content\<close>: UTF-8 first, Latin-1 after a \<open>UnicodeDecodeError\<close>, and
  \<open>None\<close> on any other failure.
\<close>

definition read_file_content :: "env \<Rightarrow> world \<Rightarrow> pystr \<Rightarrow> pystr option" where
  "read_file_content env w file_path =
     (case open_read env w file_path UTF8 of
        ReadOk content \<Rightarrow> Some content
      | ReadUnicodeDecodeError \<Rightarrow>
          (case open_read env w file_path Latin1 of
             ReadOk content \<Rightarrow> Some content
           | _ \<Rightarrow> None)
      | ReadException \<Rightarrow> None)"

text \<open>
  \<open>save_markdown\<close>: \<open>os.makedirs\<close> stands before the \<open>try\<close>, so its exception leaves
  the function; a failure to open or write is caught and gives \<open>False\<close>.
\<close>

definition save_markdown ::
  "env \<Rightarrow> world \<Rightarrow> pystr \<Rightarrow> pystr \<Rightarrow> (py_exn + bool) \<times> world"
where
  "save_markdown env w output_path markdown_content =
     (case os_makedirs env w (os_path_dirname env output_path) of
        Some msg \<Rightarrow> (Inl (Exception msg), w)
      | None \<Rightarrow>
          if open_write env w output_path markdown_content then
            (Inr True, w\<lparr>written := written w @ [(output_path, markdown_content)]\<rparr>)
          else (Inr False, w))"

subsection \<open>The table of contents\<close>

definition toc_entry :: "env \<Rightarrow> pystr \<Rightarrow> pystr \<times> pystr \<Rightarrow> pystr" where
  "toc_entry env output_dir =
     (\<lambda>(original_relative_path, md_full_path).
        let md_relative_to_toc = os_path_relpath env md_full_path output_dir
        in str ''* [`'' @ original_relative_path @ str ''`]('' @ md_relative_to_toc @ str '')'' @ NL)"

text \<open>
  The text that \<open>generate_table_of_contents\<close> builds. \<open>list.sort\<close> is stable, as
  \<open>sort_key\<close> is, and strings compare by code points, lexicographically.
\<close>

definition toc_header :: pystr where
  "toc_header =
     (let toc_content = str ''# Project Documentation - Table of Contents'' @ NL @ NL;
          toc_content = toc_content @ str ''This file lists all documentation for project files.'' @ NL @ NL;
          toc_content = toc_content @ str ''---'' @ NL @ NL
      in toc_content)"

definition toc_text :: "env \<Rightarrow> (pystr \<times> pystr) list \<Rightarrow> pystr \<Rightarrow> pystr" where
  "toc_text env documented_files_info output_dir =
     (let toc_content = toc_header
      in if documented_files_info = [] then
           toc_content @ str ''No supported files were documented.'' @ NL
         else
           foldl (\<lambda>toc_content entry. toc_content @ toc_entry env output_dir entry) toc_content
             (sort_key (\<lambda>x. py_lower (unicode_data env) (fst x)) documented_files_info))"

definition generate_table_of_contents ::
  "env \<Rightarrow> world \<Rightarrow> (pystr \<times> pystr) list \<Rightarrow> pystr \<Rightarrow> (py_exn + unit) \<times> world"
where
  "generate_table_of_contents env w documented_files_info output_dir =
     (let toc_file_path = os_path_join env output_dir (str ''TABLE_OF_CONTENTS.md'')
      in case save_markdown env w toc_file_path (toc_text env documented_files_info output_dir) of
           (Inl e, w') \<Rightarrow> (Inl e, w')
         | (Inr _, w') \<Rightarrow> (Inr (), w'))"

subsection \<open>\<open>main_documentation\<close> of \<open>code_documentation.py\<close>\<close>

text \<open>
  The loop over \<open>enumerate(chunks)\<close>, from index \<open>i\<close> on; \<open>n\<close> is \<open>len(chunks)\<close>. The
  state is the document so far and the world. An exception that leaves
  \<open>document_with_ollama\<close> ends the loop and the run.
\<close>

definition part_info_text :: "nat \<Rightarrow> nat \<Rightarrow> pystr" where
  "part_info_text i n = str ''(Part '' @ str_nat (i + 1) @ str '' of '' @ str_nat n @ str '')''"

definition part_section :: "nat \<Rightarrow> pystr \<Rightarrow> pystr" where
  "part_section i chunk_doc = str ''## Part '' @ str_nat (i + 1) @ NL @ NL @ chunk_doc @ NL @ NL @ str ''---'' @ NL @ NL"

fun document_chunks ::
  "env \<Rightarrow> pystr \<Rightarrow> pystr \<Rightarrow> nat \<Rightarrow> nat \<Rightarrow> pystr list \<Rightarrow> pystr \<times> world
     \<Rightarrow> (py_exn + pystr) \<times> world"
where
  "document_chunks env base_name file_type n i [] (full_markdown_doc, w) =
     (Inr full_markdown_doc, w)"
| "document_chunks env base_name file_type n i (chunk # chunks) (full_markdown_doc, w) =
     (let part_info = part_info_text i n
      in case document_with_ollama env w chunk base_name file_type part_info of
           (Inl e, w') \<Rightarrow> (Inl e, w')
         | (Inr chunk_doc, w') \<Rightarrow>
             document_chunks env base_name file_type n (i + 1) chunks
               (full_markdown_doc @ part_section i chunk_doc, w'))"

text \<open>The header of the document of one file.\<close>

definition file_doc_header :: "env \<Rightarrow> pystr \<Rightarrow> pystr \<Rightarrow> pystr" where
  "file_doc_header env relative_path_of_code_file file_type =
     (let full_markdown_doc = str ''# Documentation for `'' @ relative_path_of_code_file @ str ''`'' @ NL @ NL;
          full_markdown_doc = full_markdown_doc @ str ''**Original File Type:** '' @ py_capitalize (unicode_data env) file_type @ NL @ NL;
          full_markdown_doc = full_markdown_doc @ str ''--- '' @ NL @ NL
      in full_markdown_doc)"

text \<open>The document of one file: the header, then the parts or the single result.\<close>

definition file_markdown_doc ::
  "env \<Rightarrow> world \<Rightarrow> pystr \<Rightarrow> pystr \<Rightarrow> pystr \<Rightarrow> pystr \<Rightarrow> (py_exn + pystr) \<times> world"
where
  "file_markdown_doc env w relative_path_of_code_file base_name file_type content =
     (let chunks = chunk_content content (CHUNK_SIZE_CHARACTERS env);
          full_markdown_doc = file_doc_header env relative_path_of_code_file file_type
      in if length chunks > 1 then
           document_chunks env base_name file_type (length chunks) 0 chunks (full_markdown_doc, w)
         else
           (case document_with_ollama env w content base_name file_type [] of
              (Inl e, w') \<Rightarrow> (Inl e, w')
            | (Inr single_doc, w') \<Rightarrow> (Inr (full_markdown_doc @ single_doc), w')))"

text \<open>
  The relative path of a source file and the path of its document, whose name ends with
  \<open>doc_suffix\<close> (\<open>_doc.md\<close> here, \<open>_deep_doc.md\<close> in the deep pipeline).
\<close>

definition doc_paths :: "env \<Rightarrow> pystr \<Rightarrow> pystr \<Rightarrow> pystr \<Rightarrow> pystr \<Rightarrow> pystr \<times> pystr" where
  "doc_paths env SOURCE_CODE_DIR DOC_OUTPUT_DIR doc_suffix file_path =
     (let relative_path_of_code_file = os_path_relpath env file_path SOURCE_CODE_DIR;
          base_name = os_path_basename env file_path;
          (file_name_without_ext, ext) = os_path_splitext env base_name;
          output_sub_dir =
            os_path_join env DOC_OUTPUT_DIR (os_path_dirname env relative_path_of_code_file);
          output_file_name = file_name_without_ext @ doc_suffix;
          output_full_path_of_markdown_doc = os_path_join env output_sub_dir output_file_name
      in (relative_path_of_code_file, output_full_path_of_markdown_doc))"

text \<open>
  One round of the loop over \<open>file_paths\<close>, on the state
  \<open>(documented_files_info, world)\<close>.
\<close>

definition process_file ::
  "env \<Rightarrow> pystr \<Rightarrow> pystr \<Rightarrow> pystr \<Rightarrow> (pystr \<times> pystr) list \<times> world
     \<Rightarrow> (py_exn + (pystr \<times> pystr) list) \<times> world"
where
  "process_file env SOURCE_CODE_DIR DOC_OUTPUT_DIR file_path =
     (\<lambda>(documented_files_info, w).
        let (relative_path_of_code_file, output_full_path_of_markdown_doc) =
              doc_paths env SOURCE_CODE_DIR DOC_OUTPUT_DIR (str ''_doc.md'') file_path;
            base_name = os_path_basename env file_path;
            (file_name_without_ext, ext) = os_path_splitext env base_name;
            file_type = get_file_type (unicode_data env) ext
        in case read_file_content env w file_path of
             None \<Rightarrow> (Inr documented_files_info, w)
           | Some content \<Rightarrow>
               (case file_markdown_doc env w relative_path_of_code_file base_name file_type
                       content of
                  (Inl e, w1) \<Rightarrow> (Inl e, w1)
                | (Inr full_markdown_doc, w1) \<Rightarrow>
                    (case save_markdown env w1 output_full_path_of_markdown_doc
                            full_markdown_doc of
                       (Inl e, w2) \<Rightarrow> (Inl e, w2)
                     | (Inr saved, w2) \<Rightarrow>
                         (Inr (if saved then
                                 documented_files_info
                                   @ [(relative_path_of_code_file,
                                       output_full_path_of_markdown_doc)]
                               else documented_files_info), w2))))"

fun process_files ::
  "env \<Rightarrow> pystr \<Rightarrow> pystr \<Rightarrow> pystr list \<Rightarrow> (pystr \<times> pystr) list \<times> world
     \<Rightarrow> (py_exn + (pystr \<times> pystr) list) \<times> world"
where
  "process_files env SOURCE_CODE_DIR DOC_OUTPUT_DIR [] (documented_files_info, w) =
     (Inr documented_files_info, w)"
| "process_files env SOURCE_CODE_DIR DOC_OUTPUT_DIR (file_path # file_paths) st =
     (case process_file env SOURCE_CODE_DIR DOC_OUTPUT_DIR file_path st of
        (Inl e, w') \<Rightarrow> (Inl e, w')
      | (Inr documented_files_info, w') \<Rightarrow>
          process_files env SOURCE_CODE_DIR DOC_OUTPUT_DIR file_paths (documented_files_info, w'))"

text \<open>
  How a run ends: \<open>sys.exit\<close> with a status, an exception that nothing catches, or the
  return of \<open>main_documentation\<close>.
\<close>

datatype run_end = Exit int | Uncaught py_exn | Returned

definition main_documentation :: "env \<Rightarrow> world \<Rightarrow> pystr \<Rightarrow> pystr \<Rightarrow> run_end \<times> world" where
  "main_documentation env w source_code_path doc_output_path =
     (if \<not> os_path_isdir env w source_code_path then (Exit 1, w)
      else
        (case os_makedirs env w doc_output_path of
           Some msg \<Rightarrow> (Uncaught (Exception msg), w)
         | None \<Rightarrow>
             (let documented_files_info = [];
                  file_paths = scan_directory env w source_code_path
              in if file_paths = [] then (Exit 0, w)
                 else
                   (case process_files env source_code_path doc_output_path file_paths
                           (documented_files_info, w) of
                      (Inl e, w1) \<Rightarrow> (Uncaught e, w1)
                    | (Inr documented_files_info, w1) \<Rightarrow>
                        (case generate_table_of_contents env w1 documented_files_info
                                doc_output_path of
                           (Inl e, w2) \<Rightarrow> (Uncaught e, w2)
                         | (Inr _, w2) \<Rightarrow> (Returned, w2))))))"

subsection \<open>One file in \<open>main_documentation\<close> of \<open>deep_code_documentation.py\<close>\<close>

text \<open>
  One round of the loop over \<open>file_paths\<close> of the deep pipeline: the file is read and
  passed whole to \<open>document_file_with_ollama\<close>.
\<close>

definition deep_doc_header :: "env \<Rightarrow> pystr \<Rightarrow> pystr \<Rightarrow> pystr" where
  "deep_doc_header env relative_path_of_code_file file_type =
     (let full_markdown_doc = str ''# Deep Documentation for `'' @ relative_path_of_code_file @ str ''`'' @ NL @ NL;
          full_markdown_doc = full_markdown_doc @ str ''**Original File Type:** '' @ py_capitalize (unicode_data env) file_type @ NL @ NL;
          full_markdown_doc = full_markdown_doc @ str ''--- '' @ NL @ NL
      in full_markdown_doc)"

definition deep_process_file ::
  "env \<Rightarrow> pystr \<Rightarrow> pystr \<Rightarrow> pystr \<Rightarrow> (pystr \<times> pystr) list \<times> world
     \<Rightarrow> (py_exn + (pystr \<times> pystr) list) \<times> world"
where
  "deep_process_file env SOURCE_CODE_DIR DOC_OUTPUT_DIR file_path =
     (\<lambda>(documented_files_info, w).
        let (relative_path_of_code_file, output_full_path_of_markdown_doc) =
              doc_paths env SOURCE_CODE_DIR DOC_OUTPUT_DIR (str ''_deep_doc.md'') file_path;
            base_name = os_path_basename env file_path;
            (file_name_without_ext, ext) = os_path_splitext env base_name;
            file_type = get_file_type (unicode_data env) ext
        in case read_file_content env w file_path of
             None \<Rightarrow> (Inr documented_files_info, w)
           | Some content \<Rightarrow>
               (let full_markdown_doc = deep_doc_header env relative_path_of_code_file file_type
                in case document_file_with_ollama env w content base_name file_type of
                     (Inl e, w1) \<Rightarrow> (Inl e, w1)
                   | (Inr documented_parts, w1) \<Rightarrow>
                       (let full_markdown_doc = full_markdown_doc @ documented_parts
                        in case save_markdown env w1 output_full_path_of_markdown_doc
                                  full_markdown_doc of
                             (Inl e, w2) \<Rightarrow> (Inl e, w2)
                           | (Inr saved, w2) \<Rightarrow>
                               (Inr (if saved then
                                       documented_files_info
                                         @ [(relative_path_of_code_file,
                                             output_full_path_of_markdown_doc)]
                                     else documented_files_info), w2))))"

section \<open>An environment for concrete runs\<close>

text \<open>
  The functions of \<open>posixpath\<close>, as far as the concrete runs below need them: \<open>join\<close>
  in full; \<open>basename\<close> and \<open>dirname\<close> in full; \<open>splitext\<close> for a file name without
  directory part and with at most one leading dot; \<open>relpath\<close> for a path below the start
  directory, both written without \<open>.\<close> and \<open>..\<close>.
\<close>

definition example_join :: "pystr \<Rightarrow> pystr \<Rightarrow> pystr" where
  "example_join a b =
     (if b \<noteq> [] \<and> hd b = 47 then b
      else if a = [] \<or> last a = 47 then a @ b
      else a @ [47] @ b)"

definition example_basename :: "pystr \<Rightarrow> pystr" where
  "example_basename p = rev (takeWhile (\<lambda>c. c \<noteq> 47) (rev p))"

definition example_dirname :: "pystr \<Rightarrow> pystr" where
  "example_dirname p =
     (let head = take (length p - length (example_basename p)) p
      in if head \<noteq> [] \<and> \<not> list_all (\<lambda>c. c = 47) head
         then rev (dropWhile (\<lambda>c. c = 47) (rev head))
         else head)"

definition example_splitext :: "pystr \<Rightarrow> pystr \<times> pystr" where
  "example_splitext p =
     (let n = length (takeWhile (\<lambda>c. c \<noteq> 46) (rev p))
      in if n = length p \<or> n + 1 = length p then (p, [])
         else (take (length p - n - 1) p, drop (length p - n - 1) p))"

definition example_relpath :: "pystr \<Rightarrow> pystr \<Rightarrow> pystr" where
  "example_relpath p start =
     (if take (length start + 1) p = start @ [47] then drop (length start + 1) p else p)"

text \<open>
  An environment with the endpoint \<open>post\<close>, the directory walk \<open>walk\<close>, the files
  \<open>files\<close> (a path that is not listed cannot be read), a file system that accepts every
  directory and every write but those to the paths \<open>readonly\<close>, a standard output
  that prints every text, and the chunk budget \<open>chunk_size\<close>.
\<close>

definition example_env ::
  "(world \<Rightarrow> pystr \<Rightarrow> payload \<Rightarrow> post_outcome) \<Rightarrow> (pystr \<times> pystr list) list
     \<Rightarrow> (pystr \<times> pystr) list \<Rightarrow> pystr list \<Rightarrow> int \<Rightarrow> env"
where
  "example_env post walk files readonly chunk_size =
     \<lparr> unicode_data = unicode_excerpt,
       sys_print = (\<lambda>w line. None),
       OLLAMA_API_URL = str ''http://localhost:11434/api/generate'',
       OLLAMA_MODEL = str ''llama3'',
       CHUNK_SIZE_CHARACTERS = chunk_size,
       requests_post = post,
       os_path_isdir = (\<lambda>w p. True),
       os_walk = (\<lambda>w p. walk),
       os_makedirs = (\<lambda>w p. None),
       open_read = (\<lambda>w p enc. case map_of files p of Some c \<Rightarrow> ReadOk c | None \<Rightarrow> ReadException),
       open_write = (\<lambda>w p c. p \<notin> set readonly),
       os_path_join = example_join,
       os_path_splitext = example_splitext,
       os_path_basename = example_basename,
       os_path_dirname = example_dirname,
       os_path_relpath = example_relpath \<rparr>"

text \<open>An endpoint that answers every request with status 200 and the text \<open>ok\<close>.\<close>

definition post_ok :: "world \<Rightarrow> pystr \<Rightarrow> payload \<Rightarrow> post_outcome" where
  "post_ok w url pl =
     PostResponse \<lparr> status_code = 200, resp_reason = str ''OK'', resp_url = url, resp_text = str ''{}'',
                    resp_json = Inr (JObj [(str ''response'', JStr (str ''ok''))]) \<rparr>"







text \<open>
  An endpoint that answers with status 500 and the body U+2603 SNOWMAN, and a standard
  output with the encoding \<open>ascii\<close>, on which \<open>print\<close> raises a
  \<open>UnicodeEncodeError\<close> for a text that is not ASCII (the message is that of a text
  whose first such character is the snowman).
\<close>

definition snowman_500 :: response where
  "snowman_500 =
     \<lparr> status_code = 500, resp_reason = str ''Internal Server Error'',
       resp_url = str ''http://localhost:11434/api/generate'', resp_text = [0x2603],
       resp_json = Inl (str ''Expecting value: line 1 column 1 (char 0)'') \<rparr>"

definition post_snowman_500 :: "world \<Rightarrow> pystr \<Rightarrow> payload \<Rightarrow> post_outcome" where
  "post_snowman_500 w url pl = PostResponse snowman_500"

definition ascii_stdout :: "world \<Rightarrow> pystr \<Rightarrow> pystr option" where
  "ascii_stdout w line =
     (if is_ascii line then None
      else Some ([39] @ str ''ascii'' @ [39] @ str '' codec can'' @ [39]
                 @ str ''t encode character '' @ [39, 92] @ str ''u2603'' @ [39]
                 @ str '' in position '' @ str_nat (length (takeWhile (\<lambda>c. c < 128) line))
                 @ str '': ordinal not in range(128)''))"

definition ascii_stdout_env :: env where
  "ascii_stdout_env =
     (example_env post_snowman_500 [(str ''src'', [str ''b.py''])]
        [(str ''src/b.py'', str ''x'' @ NL)] [] 100) \<lparr>sys_print := ascii_stdout\<rparr>"

definition empty_world :: world where
  "empty_world = \<lparr> posted = [], written = [] \<rparr>"

text \<open>
  A source tree \<open>src\<close> with the files \<open>b.py\<close>, \<open>A.py\<close> and \<open>c.txt\<close>, of which
  \<open>c.txt\<close> cannot be read; every request is answered.
\<close>

definition index_example_env :: env where
  "index_example_env =
     example_env post_ok [(str ''src'', [str ''b.py'', str ''A.py'', str ''c.txt''])]
       [(str ''src/b.py'', str ''x'' @ NL), (str ''src/A.py'', str ''y'' @ NL)] [] 100"



section \<open>Effects of the calls\<close>

lemma document_with_ollama_snd:
  "snd (document_with_ollama env w c f t p) =
     log_post w (document_with_ollama_payload env (document_with_ollama_prompt c f t p))"
  by (simp add: document_with_ollama_def Let_def)

lemma posted_log_post: "posted (log_post w pl) = posted w @ [pl]"
  by (simp add: log_post_def)

lemma written_log_post: "written (log_post w pl) = written w"
  by (simp add: log_post_def)

lemma in_concat_split: "x \<in> set xs \<Longrightarrow> \<exists>a b. concat xs = a @ x @ b"
proof -
  assume "x \<in> set xs"
  then obtain ys zs where "xs = ys @ x # zs" by (auto simp: in_set_conv_decomp)
  then have "concat xs = concat ys @ x @ concat zs" by simp
  then show ?thesis by blast
qed

lemma save_markdown_cases:
  assumes "save_markdown env w p c = (r, w')"
  obtains msg where "r = Inl (Exception msg)" "w' = w" "os_makedirs env w (os_path_dirname env p) = Some msg"
  | "r = Inr True" "w' = w\<lparr>written := written w @ [(p, c)]\<rparr>"
      "os_makedirs env w (os_path_dirname env p) = None" "open_write env w p c"
  | "r = Inr False" "w' = w" "os_makedirs env w (os_path_dirname env p) = None" "\<not> open_write env w p c"
  using assms by (auto simp: save_markdown_def split: option.splits if_splits)

lemma call_ollama_snd:
  "snd (call_ollama env w prompt m t n) = log_post w (call_ollama_payload prompt m t n)"
  by (simp add: call_ollama_def Let_def)


lemma print_lines_quiet:
  "(\<forall>w line. sys_print env w line = None) \<Longrightarrow> print_lines env w ls = Inr ()"
  by (induction ls) simp_all

lemma file_markdown_doc_many:
  "1 < length (chunk_content content (CHUNK_SIZE_CHARACTERS env)) \<Longrightarrow>
   file_markdown_doc env w rel b t content
     = document_chunks env b t (length (chunk_content content (CHUNK_SIZE_CHARACTERS env))) 0
         (chunk_content content (CHUNK_SIZE_CHARACTERS env)) (file_doc_header env rel t, w)"
  by (simp add: file_markdown_doc_def Let_def)

lemma file_markdown_doc_single:
  "length (chunk_content content (CHUNK_SIZE_CHARACTERS env)) \<le> 1 \<Longrightarrow>
   file_markdown_doc env w rel b t content
     = (case fst (document_with_ollama env w content b t []) of
          Inl e \<Rightarrow> Inl e
        | Inr single_doc \<Rightarrow> Inr (file_doc_header env rel t @ single_doc),
        log_post w (document_with_ollama_payload env (document_with_ollama_prompt content b t [])))"
  by (simp add: file_markdown_doc_def Let_def split_beta document_with_ollama_snd [symmetric]
      split: sum.splits)
section \<open>The concrete runs\<close>

lemma py_lower_ascii: "is_ascii s \<Longrightarrow> py_lower u s = map ascii_lower s"
  using Rep_unicode [of u] by (simp add: py_lower.rep_eq case_mapping_def)

lemma py_upper_ascii: "is_ascii s \<Longrightarrow> py_upper u s = map ascii_upper s"
  using Rep_unicode [of u] by (simp add: py_upper.rep_eq case_mapping_def)

lemma py_capitalize_ascii: "is_ascii s \<Longrightarrow> py_capitalize u s = ascii_capitalize s"
  using Rep_unicode [of u] by (simp add: py_capitalize.rep_eq case_mapping_def)

lemma py_lower_idem: "py_lower u (py_lower u s) = py_lower u s"
  using Rep_unicode [of u] by (simp add: py_lower.rep_eq case_mapping_def)

lemma py_lower_excerpt: "py_lower unicode_excerpt s = map ascii_lower s"
  by (simp add: py_lower.rep_eq unicode_excerpt.rep_eq)

lemma py_upper_excerpt: "py_upper unicode_excerpt s = map excerpt_upper s"
  by (simp add: py_upper.rep_eq unicode_excerpt.rep_eq)

lemma example_env_fields [simp]:
  "unicode_data (example_env post walk files ro b) = unicode_excerpt"
  "sys_print (example_env post walk files ro b) = (\<lambda>w line. None)"
  "OLLAMA_API_URL (example_env post walk files ro b) = str ''http://localhost:11434/api/generate''"
  "OLLAMA_MODEL (example_env post walk files ro b) = str ''llama3''"
  "CHUNK_SIZE_CHARACTERS (example_env post walk files ro b) = b"
  "requests_post (example_env post walk files ro b) = post"
  "os_path_isdir (example_env post walk files ro b) = (\<lambda>w p. True)"
  "os_walk (example_env post walk files ro b) = (\<lambda>w p. walk)"
  "os_makedirs (example_env post walk files ro b) = (\<lambda>w p. None)"
  "open_read (example_env post walk files ro b) =
     (\<lambda>w p enc. case map_of files p of Some c \<Rightarrow> ReadOk c | None \<Rightarrow> ReadException)"
  "open_write (example_env post walk files ro b) = (\<lambda>w p c. p \<notin> set ro)"
  "os_path_join (example_env post walk files ro b) = example_join"
  "os_path_splitext (example_env post walk files ro b) = example_splitext"
  "os_path_basename (example_env post walk files ro b) = example_basename"
  "os_path_dirname (example_env post walk files ro b) = example_dirname"
  "os_path_relpath (example_env post walk files ro b) = example_relpath"
  by (simp_all add: example_env_def)


lemma post_ok_try: "ollama_try (example_env post_ok walk files ro b) w pl = Inr (str ''ok'')"
  by (simp add: ollama_try_def post_ok_def raise_for_status_def subscript_response_def
      strip_method_def py_strip_def is_whitespace_def str_def)

lemma post_ok_document:
  "document_with_ollama (example_env post_ok walk files ro b) w c f t p
     = (Inr (str ''ok''),
        log_post w (document_with_ollama_payload (example_env post_ok walk files ro b)
          (document_with_ollama_prompt c f t p)))"
  by (simp add: document_with_ollama_def Let_def post_ok_try)


lemma post_ok_call:
  "call_ollama (example_env post_ok walk files ro b) w p m t n
     = (Inr (str ''ok''), log_post w (call_ollama_payload p m t n))"
  by (simp add: call_ollama_def Let_def post_ok_try)

lemma scan_index_example:
  "scan_directory index_example_env w (str ''src'')
     = [str ''src/b.py'', str ''src/A.py'', str ''src/c.txt'']"
  by (simp add: index_example_env_def scan_directory_def example_join_def example_splitext_def
      py_lower_excerpt ascii_lower_def SUPPORTED_EXTENSIONS_def str_def)

lemma paths_b:
  "doc_paths index_example_env (str ''src'') (str ''out'') (str ''_doc.md'') (str ''src/b.py'')
     = (str ''b.py'', str ''out/b_doc.md'')"
  by (simp add: index_example_env_def doc_paths_def example_join_def example_splitext_def
      example_relpath_def example_basename_def example_dirname_def str_def Let_def)

lemma paths_A:
  "doc_paths index_example_env (str ''src'') (str ''out'') (str ''_doc.md'') (str ''src/A.py'')
     = (str ''A.py'', str ''out/A_doc.md'')"
  by (simp add: index_example_env_def doc_paths_def example_join_def example_splitext_def
      example_relpath_def example_basename_def example_dirname_def str_def Let_def)

lemma example_save:
  "save_markdown (example_env post walk files [] b) w p c
     = (Inr True, w\<lparr>written := written w @ [(p, c)]\<rparr>)"
  by (simp add: save_markdown_def)

lemma example_single_chunk:
  "file_markdown_doc (example_env post_ok walk files ro 100) w rel base t (c # NL)
     = (Inr (file_doc_header (example_env post_ok walk files ro 100) rel t @ str ''ok''),
        log_post w (document_with_ollama_payload (example_env post_ok walk files ro 100)
          (document_with_ollama_prompt (c # NL) base t [])))"
  by (simp add: file_markdown_doc_def Let_def post_ok_document chunk_content_def splitlines_def NL_def)

lemma names_index_example:
  "example_basename (str ''src/b.py'') = str ''b.py''"
  "example_basename (str ''src/A.py'') = str ''A.py''"
  "example_basename (str ''src/c.txt'') = str ''c.txt''"
  "example_splitext (str ''b.py'') = (str ''b'', str ''.py'')"
  "example_splitext (str ''A.py'') = (str ''A'', str ''.py'')"
  "example_splitext (str ''c.txt'') = (str ''c'', str ''.txt'')"
  by (simp_all add: example_basename_def example_splitext_def str_def)

lemma type_py: "get_file_type unicode_excerpt (str ''.py'') = str ''python''"
  by (simp add: get_file_type_def py_lower_excerpt ascii_lower_def
      SUPPORTED_EXTENSIONS_def str_def)

lemma read_index_example:
  "read_file_content index_example_env w (str ''src/b.py'') = Some (120 # NL)"
  "read_file_content index_example_env w (str ''src/A.py'') = Some (121 # NL)"
  "read_file_content index_example_env w (str ''src/c.txt'') = None"
  by (simp_all add: read_file_content_def index_example_env_def str_def)

lemma index_example_fields:
  "unicode_data index_example_env = unicode_excerpt"
  "os_path_isdir index_example_env = (\<lambda>w p. True)"
  "os_makedirs index_example_env = (\<lambda>w p. None)"
  "os_path_join index_example_env = example_join"
  "os_path_splitext index_example_env = example_splitext"
  "os_path_basename index_example_env = example_basename"
  "os_path_relpath index_example_env = example_relpath"
  by (simp_all add: index_example_env_def)

lemma index_example_save:
  "save_markdown index_example_env w p c = (Inr True, w\<lparr>written := written w @ [(p, c)]\<rparr>)"
  by (simp add: index_example_env_def example_save)

lemma index_example_single_chunk:
  "file_markdown_doc index_example_env w rel base t (c # NL)
     = (Inr (file_doc_header index_example_env rel t @ str ''ok''),
        log_post w (document_with_ollama_payload index_example_env
          (document_with_ollama_prompt (c # NL) base t [])))"
  by (simp add: index_example_env_def example_single_chunk)

lemma process_b:
  "process_file index_example_env (str ''src'') (str ''out'') (str ''src/b.py'') (info, w)
    = (Inr (info @ [(str ''b.py'', str ''out/b_doc.md'')]),
       (log_post w (document_with_ollama_payload index_example_env
          (document_with_ollama_prompt (120 # NL) (str ''b.py'') (str ''python'') [])))
       \<lparr>written := written w @ [(str ''out/b_doc.md'',
            file_doc_header index_example_env (str ''b.py'') (str ''python'') @ str ''ok'')]\<rparr>)"
  by (simp add: process_file_def paths_b read_index_example names_index_example Let_def
      index_example_fields index_example_single_chunk index_example_save type_py
      written_log_post)

lemma process_A:
  "process_file index_example_env (str ''src'') (str ''out'') (str ''src/A.py'') (info, w)
    = (Inr (info @ [(str ''A.py'', str ''out/A_doc.md'')]),
       (log_post w (document_with_ollama_payload index_example_env
          (document_with_ollama_prompt (121 # NL) (str ''A.py'') (str ''python'') [])))
       \<lparr>written := written w @ [(str ''out/A_doc.md'',
            file_doc_header index_example_env (str ''A.py'') (str ''python'') @ str ''ok'')]\<rparr>)"
  by (simp add: process_file_def paths_A read_index_example names_index_example Let_def
      index_example_fields index_example_single_chunk index_example_save type_py
      written_log_post)

lemma process_c:
  "process_file index_example_env (str ''src'') (str ''out'') (str ''src/c.txt'') (info, w) = (Inr info, w)"
  by (simp add: process_file_def read_index_example Let_def split_beta)

lemma toc_index_example:
  "toc_text index_example_env
      [(str ''b.py'', str ''out/b_doc.md''), (str ''A.py'', str ''out/A_doc.md'')] (str ''out'')
    = toc_header @ str ''* [`A.py`](A_doc.md)'' @ NL @ str ''* [`b.py`](b_doc.md)'' @ NL"
  by (simp add: toc_text_def toc_entry_def index_example_fields py_lower_excerpt
      ascii_lower_def example_relpath_def str_def)

lemma main_index_example:
  "main_documentation index_example_env empty_world (str ''src'') (str ''out'')
    = (Returned,
       \<lparr>posted =
          [document_with_ollama_payload index_example_env
             (document_with_ollama_prompt (str ''x'' @ NL) (str ''b.py'') (str ''python'') []),
           document_with_ollama_payload index_example_env
             (document_with_ollama_prompt (str ''y'' @ NL) (str ''A.py'') (str ''python'') [])],
        written =
          [(str ''out/b_doc.md'',
              file_doc_header index_example_env (str ''b.py'') (str ''python'') @ str ''ok''),
           (str ''out/A_doc.md'',
              file_doc_header index_example_env (str ''A.py'') (str ''python'') @ str ''ok''),
           (str ''out/TABLE_OF_CONTENTS.md'',
              toc_header @ str ''* [`A.py`](A_doc.md)'' @ NL @ str ''* [`b.py`](b_doc.md)'' @ NL)]\<rparr>)"
  by (simp add: main_documentation_def scan_index_example process_b process_A process_c
        generate_table_of_contents_def toc_index_example Let_def index_example_fields
        index_example_save)
     (simp add: example_join_def empty_world_def log_post_def str_def)




lemma chunks_two:
  "chunk_content (str ''ab'' @ NL @ str ''cd'' @ NL) 3 = [str ''ab'' @ NL, str ''cd'' @ NL]"
  by (simp add: chunk_content_def splitlines_def str_def NL_def is_linebreak_def)

lemma chunks_one: "chunk_content (str ''ab'' @ NL) 3 = [str ''ab'' @ NL]"
  by (simp add: chunk_content_def splitlines_def str_def NL_def is_linebreak_def)

lemma ascii_stdout_env_fields:
  "unicode_data ascii_stdout_env = unicode_excerpt"
  "sys_print ascii_stdout_env = ascii_stdout"
  "OLLAMA_API_URL ascii_stdout_env = str ''http://localhost:11434/api/generate''"
  "OLLAMA_MODEL ascii_stdout_env = str ''llama3''"
  "CHUNK_SIZE_CHARACTERS ascii_stdout_env = 100"
  "requests_post ascii_stdout_env = post_snowman_500"
  "os_makedirs ascii_stdout_env = (\<lambda>w p. None)"
  "open_read ascii_stdout_env =
     (\<lambda>w p enc. case map_of [(str ''src/b.py'', str ''x'' @ NL)] p of
        Some c \<Rightarrow> ReadOk c | None \<Rightarrow> ReadException)"
  "open_write ascii_stdout_env = (\<lambda>w p c. True)"
  "os_path_join ascii_stdout_env = example_join"
  "os_path_splitext ascii_stdout_env = example_splitext"
  "os_path_basename ascii_stdout_env = example_basename"
  "os_path_dirname ascii_stdout_env = example_dirname"
  "os_path_relpath ascii_stdout_env = example_relpath"
  by (simp_all add: ascii_stdout_env_def)

lemma ascii_stdout_try:
  "ollama_try ascii_stdout_env w pl = Inl (HTTPError (http_error_msg snowman_500) snowman_500)"
  by (simp add: ollama_try_def ascii_stdout_env_fields post_snowman_500_def
      raise_for_status_def snowman_500_def)

lemma ascii_stdout_print:
  "print_lines ascii_stdout_env w
      (except_prints ascii_stdout_env (HTTPError (http_error_msg snowman_500) snowman_500))
     = Inl (Exception ([39] @ str ''ascii'' @ [39] @ str '' codec can'' @ [39]
                 @ str ''t encode character '' @ [39, 92] @ str ''u2603'' @ [39]
                 @ str '' in position 118: ordinal not in range(128)''))"
  by (simp add: except_prints_def ascii_stdout_env_fields ascii_stdout_def is_ascii_def
      http_error_msg_def snowman_500_def str_nat.simps str_def)

lemma ascii_stdout_call:
  "call_ollama ascii_stdout_env w p m t n
     = (Inl (Exception ([39] @ str ''ascii'' @ [39] @ str '' codec can'' @ [39]
                 @ str ''t encode character '' @ [39, 92] @ str ''u2603'' @ [39]
                 @ str '' in position 118: ordinal not in range(128)'')),
        log_post w (call_ollama_payload p m t n))"
  by (simp add: call_ollama_def Let_def ascii_stdout_try except_clause_def ascii_stdout_print)

lemma ascii_stdout_document:
  "document_with_ollama ascii_stdout_env w c f t p
     = (Inl (Exception ([39] @ str ''ascii'' @ [39] @ str '' codec can'' @ [39]
                 @ str ''t encode character '' @ [39, 92] @ str ''u2603'' @ [39]
                 @ str '' in position 118: ordinal not in range(128)'')),
        log_post w (document_with_ollama_payload ascii_stdout_env
          (document_with_ollama_prompt c f t p)))"
  by (simp add: document_with_ollama_def Let_def ascii_stdout_try except_clause_def
      ascii_stdout_print)
section \<open>Properties of the chunker\<close>

subsection \<open>Lines\<close>

lemma concat_splitlines_keepends: "concat (splitlines_keepends line s) = line @ s"
  by (induction line s rule: splitlines_keepends.induct) auto

lemma splitlines_keepends_nonempty: "l \<in> set (splitlines_keepends line s) \<Longrightarrow> l \<noteq> []"
  by (induction line s rule: splitlines_keepends.induct) (auto split: if_splits)

lemma concat_splitlines: "concat (splitlines t) = t"
  by (simp add: splitlines_def concat_splitlines_keepends)

lemma splitlines_nonempty: "[] \<notin> set (splitlines t)"
  using splitlines_keepends_nonempty by (auto simp: splitlines_def)

lemma splitlines_eq_Nil: "splitlines t = [] \<longleftrightarrow> t = []"
  using concat_splitlines[of t] by (auto simp: splitlines_def)

subsection \<open>The loop\<close>

lemma chunk_loop_cases:
  obtains ch cur n where "chunk_loop b ls st = (ch, cur, n)"
  by (cases "chunk_loop b ls st") auto

lemma chunk_loop_concat:
  "chunk_loop b ls (ch, cur, n) = (ch', cur', n') \<Longrightarrow>
   concat ch' @ concat cur' = concat ch @ concat cur @ concat ls"
  by (induction ls arbitrary: ch cur n) (auto split: if_splits)

text \<open>
  The invariant of the loop, with the closed chunks seen as groups \<open>gs\<close> of lines: the
  groups and the open buffer hold the lines read so far, no group is empty, the buffer is
  empty only before the first line, \<open>current_length\<close> is the length of the buffer, and a
  group or buffer over the budget holds one line.
\<close>

lemma chunk_loop_groups:
  assumes "chunk_loop b ls (map concat gs, cur, n) = (ch', cur', n')"
    and "n = int (length (concat cur))"
    and "n \<le> b \<or> length cur \<le> 1"
    and "\<forall>g \<in> set gs. g \<noteq> [] \<and> (int (length (concat g)) \<le> b \<or> length g = 1)"
  shows "\<exists>gs'. ch' = map concat gs' \<and> concat gs' @ cur' = concat gs @ cur @ ls
      \<and> (\<forall>g \<in> set gs'. g \<noteq> [] \<and> (int (length (concat g)) \<le> b \<or> length g = 1))
      \<and> (cur \<noteq> [] \<or> ls \<noteq> [] \<longrightarrow> cur' \<noteq> [])
      \<and> n' = int (length (concat cur')) \<and> (n' \<le> b \<or> length cur' \<le> 1)"
  using assms
proof (induction ls arbitrary: gs cur n)
  case Nil
  then show ?case by auto
next
  case (Cons l ls)
  show ?case
  proof (cases "n + int (length l) > b \<and> cur \<noteq> []")
    case True
    with Cons.prems(1)
    have r: "chunk_loop b ls (map concat (gs @ [cur]), [l], int (length l)) = (ch', cur', n')"
      by simp
    have c: "int (length (concat cur)) \<le> b \<or> length cur = 1"
      using Cons.prems(2,3) True by (cases cur) auto
    have "\<exists>gs'. ch' = map concat gs' \<and> concat gs' @ cur' = concat (gs @ [cur]) @ [l] @ ls
      \<and> (\<forall>g \<in> set gs'. g \<noteq> [] \<and> (int (length (concat g)) \<le> b \<or> length g = 1))
      \<and> ([l] \<noteq> [] \<or> ls \<noteq> [] \<longrightarrow> cur' \<noteq> [])
      \<and> n' = int (length (concat cur')) \<and> (n' \<le> b \<or> length cur' \<le> 1)"
      by (rule Cons.IH[OF r]) (use Cons.prems(4) True c in auto)
    then show ?thesis by auto
  next
    case False
    with Cons.prems(1)
    have r: "chunk_loop b ls (map concat gs, cur @ [l], n + int (length l)) = (ch', cur', n')"
      by auto
    have "\<exists>gs'. ch' = map concat gs' \<and> concat gs' @ cur' = concat gs @ (cur @ [l]) @ ls
      \<and> (\<forall>g \<in> set gs'. g \<noteq> [] \<and> (int (length (concat g)) \<le> b \<or> length g = 1))
      \<and> (cur @ [l] \<noteq> [] \<or> ls \<noteq> [] \<longrightarrow> cur' \<noteq> [])
      \<and> n' = int (length (concat cur')) \<and> (n' \<le> b \<or> length cur' \<le> 1)"
      by (rule Cons.IH[OF r]) (use Cons.prems(2,3,4) False in auto)
    then show ?thesis by auto
  qed
qed

text \<open>
  What \<open>chunk_content\<close> returns in terms of groups of lines: the groups are not empty,
  they hold the lines of the text in order, and a group over the budget is one line.
\<close>

lemma chunk_content_groups:
  "\<exists>gs. chunk_content t b = map concat gs \<and> concat gs = splitlines t
      \<and> (\<forall>g \<in> set gs. g \<noteq> [] \<and> (int (length (concat g)) \<le> b \<or> length g = 1))"
proof (cases "t = []")
  case True
  have "chunk_content t b = map concat [] \<and> concat [] = splitlines t"
    using True by (simp add: chunk_content_def splitlines_def)
  then show ?thesis by (intro exI[of _ "[]"]) simp
next
  case False
  obtain ch cur n where r: "chunk_loop b (splitlines t) ([], [], 0) = (ch, cur, n)"
    by (rule chunk_loop_cases)
  from r have "chunk_loop b (splitlines t) (map concat [], [], 0) = (ch, cur, n)"
    by simp
  from chunk_loop_groups[OF this] False obtain gs where
    g: "ch = map concat gs" "concat gs @ cur = splitlines t" "cur \<noteq> []"
      "\<forall>g \<in> set gs. g \<noteq> [] \<and> (int (length (concat g)) \<le> b \<or> length g = 1)"
      "n = int (length (concat cur))" "n \<le> b \<or> length cur \<le> 1"
    by (auto simp: splitlines_eq_Nil)
  have c: "int (length (concat cur)) \<le> b \<or> length cur = 1"
    using g(3,5,6) by (cases cur) auto
  have "chunk_content t b = map concat (gs @ [cur])"
    using r False g(1,3) by (simp add: chunk_content_def)
  moreover have "concat (gs @ [cur]) = splitlines t"
    using g(2) by simp
  moreover have "\<forall>g \<in> set (gs @ [cur]). g \<noteq> [] \<and> (int (length (concat g)) \<le> b \<or> length g = 1)"
    using g(3,4) c by auto
  ultimately show ?thesis by blast
qed

lemma chunk_content_single_line:
  assumes "splitlines t = [t]"
  shows "chunk_content t b = [t]"
proof -
  from assms have "t \<noteq> []" by (auto simp: splitlines_def)
  with assms show ?thesis by (simp add: chunk_content_def)
qed

text \<open>
  Two runs of the loop over the same lines, the second with the larger budget: the second
  never has more closed chunks, and with as many its buffer is no longer.
\<close>

lemma chunk_loop_count_mono:
  assumes "b1 \<le> b2"
    and "chunk_loop b1 ls (ch1, cur1, n1) = (ch1', cur1', n1')"
    and "chunk_loop b2 ls (ch2, cur2, n2) = (ch2', cur2', n2')"
    and "cur1 = [] \<longleftrightarrow> cur2 = []"
    and "length ch2 < length ch1 \<or> (length ch2 = length ch1 \<and> n2 \<le> n1)"
    and "0 \<le> n1"
  shows "(cur1' = [] \<longleftrightarrow> cur2' = []) \<and> length ch2' \<le> length ch1'"
  using assms(2-)
proof (induction ls arbitrary: ch1 cur1 n1 ch2 cur2 n2)
  case Nil
  then show ?case by auto
next
  case (Cons l ls)
  let ?f1 = "n1 + int (length l) > b1 \<and> cur1 \<noteq> []"
  let ?f2 = "n2 + int (length l) > b2 \<and> cur2 \<noteq> []"
  let ?s1 = "if ?f1 then (ch1 @ [concat cur1], [l], int (length l))
      else (ch1, cur1 @ [l], n1 + int (length l))"
  let ?s2 = "if ?f2 then (ch2 @ [concat cur2], [l], int (length l))
      else (ch2, cur2 @ [l], n2 + int (length l))"
  obtain c1 k1 m1 where s1: "(c1, k1, m1) = ?s1"
    by (cases ?s1) auto
  obtain c2 k2 m2 where s2: "(c2, k2, m2) = ?s2"
    by (cases ?s2) auto
  from Cons.prems(1) s1 have r1: "chunk_loop b1 ls (c1, k1, m1) = (ch1', cur1', n1')"
    by (auto split: if_splits)
  from Cons.prems(2) s2 have r2: "chunk_loop b2 ls (c2, k2, m2) = (ch2', cur2', n2')"
    by (auto split: if_splits)
  have e: "k1 = [] \<longleftrightarrow> k2 = []"
    using s1 s2 by (auto split: if_splits)
  have o: "length c2 < length c1 \<or> (length c2 = length c1 \<and> m2 \<le> m1)"
    using s1 s2 Cons.prems(3,4,5) assms(1) by (auto split: if_splits)
  have p: "0 \<le> m1"
    using s1 Cons.prems(5) by (auto split: if_splits)
  show ?case by (rule Cons.IH[OF r1 r2 e o p])
qed

section \<open>The claims about the chunker\<close>

text \<open>
  C1. Chunking is a lossless round trip: for every text and every budget (positive or
  not), the chunks of \<open>chunk_content\<close> joined in order are the text. The empty text has
  no chunk, and a text that is a single line, with or without a line terminator and
  however long against the budget, is returned as its one chunk.
\<close>

theorem chunk_content_roundtrip:
  "concat (chunk_content content budget) = content
   \<and> chunk_content [] budget = []
   \<and> (splitlines content = [content] \<longrightarrow> chunk_content content budget = [content])"
proof (intro conjI impI)
  show "concat (chunk_content content budget) = content"
  proof (cases "content = []")
    case True
    then show ?thesis by (simp add: chunk_content_def)
  next
    case False
    obtain ch cur n where r: "chunk_loop budget (splitlines content) ([], [], 0) = (ch, cur, n)"
      by (rule chunk_loop_cases)
    from chunk_loop_concat[OF r] have "concat ch @ concat cur = content"
      by (simp add: concat_splitlines)
    with r False show ?thesis by (auto simp: chunk_content_def)
  qed
  show "chunk_content [] budget = []"
    by (simp add: chunk_content_def)
  show "chunk_content content budget = [content]" if "splitlines content = [content]"
    using that by (rule chunk_content_single_line)
qed

text \<open>
  Witness of C1: the line \<open>abcd\<close> with its LF, five characters against a budget of three,
  is one line and comes back as one chunk.
\<close>

theorem chunk_content_roundtrip_witness:
  "splitlines (str ''abcd'' @ NL) = [str ''abcd'' @ NL]
   \<and> chunk_content (str ''abcd'' @ NL) 3 = [str ''abcd'' @ NL]
   \<and> concat (chunk_content (str ''abcd'' @ NL) 3) = str ''abcd'' @ NL"
  using chunk_content_roundtrip [of "str ''abcd'' @ NL" 3]
  by (simp add: splitlines_def str_def NL_def is_linebreak_def)

text \<open>
  C2. Budget respect: for every text and every positive budget, the chunks are the joins
  of consecutive groups of lines of the text, and every chunk is no longer than the budget
  or is made of exactly one line. So a chunk over the budget is one whole line, alone.
\<close>

theorem chunk_content_budget:
  assumes "0 < budget"
  shows "\<exists>gs. chunk_content content budget = map concat gs \<and> concat gs = splitlines content
      \<and> (\<forall>g \<in> set gs. int (length (concat g)) \<le> budget \<or> length g = 1)"
  using chunk_content_groups [of content budget] by blast

text \<open>
  Witness of C2: with budget 3, the text \<open>a LF bcde LF f LF\<close> gives the chunk \<open>a LF\<close>
  within the budget, the line \<open>bcde LF\<close> of five characters alone, and \<open>f LF\<close>.
\<close>

theorem chunk_content_budget_witness:
  "(0::int) < 3
   \<and> chunk_content (str ''a'' @ NL @ str ''bcde'' @ NL @ str ''f'' @ NL) 3
       = [str ''a'' @ NL, str ''bcde'' @ NL, str ''f'' @ NL]
   \<and> (\<exists>gs. chunk_content (str ''a'' @ NL @ str ''bcde'' @ NL @ str ''f'' @ NL) 3 = map concat gs
         \<and> concat gs = splitlines (str ''a'' @ NL @ str ''bcde'' @ NL @ str ''f'' @ NL)
         \<and> (\<forall>g \<in> set gs. int (length (concat g)) \<le> 3 \<or> length g = 1))"
proof -
  have h: "(0::int) < 3" by simp
  have e: "chunk_content (str ''a'' @ NL @ str ''bcde'' @ NL @ str ''f'' @ NL) 3
       = [str ''a'' @ NL, str ''bcde'' @ NL, str ''f'' @ NL]"
    by (simp add: chunk_content_def splitlines_def str_def NL_def is_linebreak_def)
  show ?thesis
    using h e chunk_content_budget [OF h, of "str ''a'' @ NL @ str ''bcde'' @ NL @ str ''f'' @ NL"]
    by blast
qed

text \<open>
  C6. Chunk count monotonicity: for a fixed text and budgets \<open>b1 \<le> b2\<close>, the smaller
  budget gives at least as many chunks as the larger one.
\<close>

theorem chunk_content_count_mono:
  assumes "0 < b1" and "b1 \<le> b2"
  shows "length (chunk_content content b2) \<le> length (chunk_content content b1)"
proof (cases "content = []")
  case True
  then show ?thesis by (simp add: chunk_content_def)
next
  case False
  obtain ch1 cur1 n1 where r1: "chunk_loop b1 (splitlines content) ([], [], 0) = (ch1, cur1, n1)"
    by (rule chunk_loop_cases)
  obtain ch2 cur2 n2 where r2: "chunk_loop b2 (splitlines content) ([], [], 0) = (ch2, cur2, n2)"
    by (rule chunk_loop_cases)
  have "(cur1 = [] \<longleftrightarrow> cur2 = []) \<and> length ch2 \<le> length ch1"
    by (rule chunk_loop_count_mono[OF assms(2) r1 r2]) auto
  with r1 r2 False show ?thesis by (auto simp: chunk_content_def)
qed

text \<open>
  Witness of C6: the text \<open>ab LF cd LF\<close> has two chunks with budget 3 and one with
  budget 6.
\<close>

theorem chunk_content_count_mono_witness:
  "(0::int) < 3 \<and> (3::int) \<le> 6
   \<and> length (chunk_content (str ''ab'' @ NL @ str ''cd'' @ NL) 3) = 2
   \<and> length (chunk_content (str ''ab'' @ NL @ str ''cd'' @ NL) 6) = 1
   \<and> length (chunk_content (str ''ab'' @ NL @ str ''cd'' @ NL) 6)
       \<le> length (chunk_content (str ''ab'' @ NL @ str ''cd'' @ NL) 3)"
proof -
  have h1: "(0::int) < 3" and h2: "(3::int) \<le> 6" by simp_all
  have e: "length (chunk_content (str ''ab'' @ NL @ str ''cd'' @ NL) 3) = 2"
      "length (chunk_content (str ''ab'' @ NL @ str ''cd'' @ NL) 6) = 1"
    by (simp_all add: chunk_content_def splitlines_def str_def NL_def is_linebreak_def)
  show ?thesis
    using h1 h2 e chunk_content_count_mono [OF h1 h2, of "str ''ab'' @ NL @ str ''cd'' @ NL"]
    by blast
qed

text \<open>
  C9. For every non-empty text, \<open>chunk_content\<close> returns at least one chunk, no chunk is
  the empty string, and the chunks are the joins of consecutive non-empty groups of whole
  lines of the text, the lines being those of \<open>splitlines\<close> with their terminators.
\<close>

theorem chunk_content_lines:
  assumes "content \<noteq> []" and "0 < budget"
  shows "chunk_content content budget \<noteq> [] \<and> [] \<notin> set (chunk_content content budget)
     \<and> (\<exists>gs. [] \<notin> set gs \<and> concat gs = splitlines content
           \<and> chunk_content content budget = map concat gs)"
proof -
  from chunk_content_groups [of content budget] obtain gs where
    g: "chunk_content content budget = map concat gs" "concat gs = splitlines content"
      "\<forall>g \<in> set gs. g \<noteq> []"
    by blast
  have "splitlines content \<noteq> []"
    using assms(1) by (simp add: splitlines_eq_Nil)
  then have "gs \<noteq> []"
    using g(2) by auto
  then have 1: "chunk_content content budget \<noteq> []"
    using g(1) by simp
  have 2: "[] \<notin> set (chunk_content content budget)"
  proof
    assume "[] \<in> set (chunk_content content budget)"
    then have "[] \<in> concat ` set gs" using g(1) by (simp only: set_map)
    then obtain x where xin: "x \<in> set gs" and xe: "concat x = []" by (metis imageE)
    from xin g(3) have "x \<noteq> []" by auto
    then obtain l where lin: "l \<in> set x" by (cases x) auto
    with xe have "l = []" by auto
    with lin xin have "[] \<in> set (concat gs)" by auto
    with g(2) splitlines_nonempty show False by simp
  qed
  from g(3) have "[] \<notin> set gs" by auto
  with 1 2 g(1,2) show ?thesis by blast
qed

text \<open>
  Witness of C9: the text \<open>ab LF cd\<close>, whose last line has no terminator, with budget 3.
\<close>

theorem chunk_content_lines_witness:
  "str ''ab'' @ NL @ str ''cd'' \<noteq> [] \<and> (0::int) < 3
   \<and> chunk_content (str ''ab'' @ NL @ str ''cd'') 3 = [str ''ab'' @ NL, str ''cd'']
   \<and> chunk_content (str ''ab'' @ NL @ str ''cd'') 3 \<noteq> []
   \<and> [] \<notin> set (chunk_content (str ''ab'' @ NL @ str ''cd'') 3)"
proof -
  have h1: "str ''ab'' @ NL @ str ''cd'' \<noteq> []" by (simp add: str_def)
  have h2: "(0::int) < 3" by simp
  have e: "chunk_content (str ''ab'' @ NL @ str ''cd'') 3 = [str ''ab'' @ NL, str ''cd'']"
    by (simp add: chunk_content_def splitlines_def str_def NL_def is_linebreak_def)
  show ?thesis
    using h1 h2 e chunk_content_lines [OF h1 h2] by blast
qed

section \<open>Properties of the language detection\<close>

lemma ascii_lower_upper: "ascii_lower (ascii_upper c) = ascii_lower c"
  by (auto simp: ascii_lower_def ascii_upper_def)

lemma is_ascii_map_upper: "is_ascii s \<Longrightarrow> is_ascii (map ascii_upper s)"
  by (induction s) (auto simp: is_ascii_def ascii_upper_def)

lemma py_lower_upper_ascii: "is_ascii s \<Longrightarrow> py_lower u (py_upper u s) = py_lower u s"
  by (simp add: py_lower_ascii py_upper_ascii is_ascii_map_upper ascii_lower_upper)

text \<open>
  C10, as the code has it. \<open>get_file_type\<close> returns the tag that the dictionary has
  for the lowercased extension, and \<open>unknown\<close> when it has none. For every extension,
  lowercasing it first does not change the result. For an extension of ASCII characters,
  uppercasing it first does not change the result either.
\<close>

theorem get_file_type_case:
  "get_file_type u e =
     (case SUPPORTED_EXTENSIONS (py_lower u e) of Some t \<Rightarrow> t | None \<Rightarrow> str ''unknown'')
   \<and> get_file_type u (py_lower u e) = get_file_type u e
   \<and> (is_ascii e \<longrightarrow> get_file_type u (py_upper u e) = get_file_type u e)"
  by (simp add: get_file_type_def py_lower_idem py_lower_upper_ascii)

text \<open>
  Witness of C10: the ASCII extension \<open>.Py\<close>, of type \<open>python\<close> as it is, lowercased
  and uppercased.
\<close>

theorem get_file_type_case_witness:
  "is_ascii (str ''.Py'')
   \<and> get_file_type unicode_excerpt (str ''.Py'') = str ''python''
   \<and> get_file_type unicode_excerpt (py_lower unicode_excerpt (str ''.Py'')) = str ''python''
   \<and> get_file_type unicode_excerpt (py_upper unicode_excerpt (str ''.Py'')) = str ''python''"
proof -
  have a: "is_ascii (str ''.Py'')" by (simp add: is_ascii_def str_def)
  have v: "get_file_type unicode_excerpt (str ''.Py'') = str ''python''"
    by (simp add: get_file_type_def py_lower_excerpt ascii_lower_def SUPPORTED_EXTENSIONS_def
        str_def)
  show ?thesis
    using a v get_file_type_case [of unicode_excerpt "str ''.Py''"] by simp
qed

text \<open>
  Counterexample to C10 as stated, for every extension string: the extension of the three
  characters full stop, c and U+017F is not in the dictionary, so its type is
  \<open>unknown\<close>; uppercased it is \<open>.CS\<close>, of type \<open>csharp\<close>.
\<close>

theorem get_file_type_upper_counterexample:
  "get_file_type unicode_excerpt [0x2E, 0x63, 0x17F] = str ''unknown''
   \<and> py_upper unicode_excerpt [0x2E, 0x63, 0x17F] = str ''.CS''
   \<and> get_file_type unicode_excerpt (py_upper unicode_excerpt [0x2E, 0x63, 0x17F]) = str ''csharp''
   \<and> get_file_type unicode_excerpt (py_upper unicode_excerpt [0x2E, 0x63, 0x17F])
       \<noteq> get_file_type unicode_excerpt [0x2E, 0x63, 0x17F]"
  by (simp add: get_file_type_def py_lower_excerpt py_upper_excerpt str_def ascii_lower_def
      ascii_upper_def excerpt_upper_def SUPPORTED_EXTENSIONS_def)

section \<open>Properties of the inference client\<close>













lemma except_clause_raised:
  "print_lines env w (except_prints env e) = Inl raised \<Longrightarrow> except_clause env w e text = Inl raised"
  by (simp add: except_clause_def)





section \<open>The document of one file\<close>

lemma document_with_ollama_quiet:
  assumes "\<forall>w line. sys_print env w line = None"
  shows "\<exists>r. fst (document_with_ollama env w c f t p) = Inr r"
  by (cases "ollama_try env w (document_with_ollama_payload env (document_with_ollama_prompt c f t p))")
     (simp_all add: document_with_ollama_def Let_def except_clause_def print_lines_quiet [OF assms])

lemma document_chunks_sections:
  assumes "document_chunks env b t n i chunks (doc, w) = (Inr out, w')"
  shows "\<exists>docs.
     list_all2 (\<lambda>(k, chunk) d. \<exists>wk. fst (document_with_ollama env wk chunk b t (part_info_text k n)) = Inr d)
       (enumerate i chunks) docs
     \<and> out = doc @ concat (map (\<lambda>(k, d). part_section k d) (enumerate i docs))
     \<and> posted w' = posted w @ map (\<lambda>(k, chunk). document_with_ollama_payload env
               (document_with_ollama_prompt chunk b t (part_info_text k n))) (enumerate i chunks)"
  using assms
proof (induction chunks arbitrary: i doc w)
  case Nil
  then have "out = doc" "w' = w" by simp_all
  then show ?case by (intro exI[of _ "[]"]) simp
next
  case (Cons c cs)
  let ?r = "document_with_ollama env w c b t (part_info_text i n)"
  obtain x w1 where r: "?r = (x, w1)" by (cases ?r) auto
  with Cons.prems obtain d where x: "x = Inr d"
    by (cases x) (simp_all add: Let_def)
  from Cons.prems r x
  have rest: "document_chunks env b t n (Suc i) cs (doc @ part_section i d, w1) = (Inr out, w')"
    by (simp add: Let_def)
  from Cons.IH [OF rest] obtain docs where d:
    "list_all2 (\<lambda>(k, chunk) d. \<exists>wk. fst (document_with_ollama env wk chunk b t (part_info_text k n)) = Inr d)
       (enumerate (Suc i) cs) docs"
    "out = (doc @ part_section i d) @ concat (map (\<lambda>(k, d). part_section k d) (enumerate (Suc i) docs))"
    "posted w' = posted w1 @ map (\<lambda>(k, chunk). document_with_ollama_payload env
               (document_with_ollama_prompt chunk b t (part_info_text k n))) (enumerate (Suc i) cs)"
    by blast
  have w1: "w1 = log_post w (document_with_ollama_payload env
      (document_with_ollama_prompt c b t (part_info_text i n)))"
    using r document_with_ollama_snd [of env w c b t "part_info_text i n"] by simp
  have fx: "fst ?r = Inr d" using r x by simp
  show ?case
  proof (intro exI[of _ "d # docs"] conjI)
    show "list_all2 (\<lambda>(k, chunk) d. \<exists>wk. fst (document_with_ollama env wk chunk b t (part_info_text k n)) = Inr d)
       (enumerate i (c # cs)) (d # docs)"
      using d(1) fx by auto
    show "out = doc @ concat (map (\<lambda>(k, d). part_section k d) (enumerate i (d # docs)))"
      using d(2) by simp
    show "posted w' = posted w @ map (\<lambda>(k, chunk). document_with_ollama_payload env
               (document_with_ollama_prompt chunk b t (part_info_text k n))) (enumerate i (c # cs))"
      using d(3) by (simp add: w1 posted_log_post)
  qed
qed

lemma document_chunks_raises:
  assumes "fst (document_chunks env b t n i chunks (doc, w)) = Inl e"
  shows "\<exists>k chunk wk. (k, chunk) \<in> set (enumerate i chunks)
     \<and> fst (document_with_ollama env wk chunk b t (part_info_text k n)) = Inl e"
  using assms
proof (induction chunks arbitrary: i doc w)
  case Nil
  then show ?case by simp
next
  case (Cons c cs)
  let ?r = "document_with_ollama env w c b t (part_info_text i n)"
  obtain x w1 where r: "?r = (x, w1)" by (cases ?r) auto
  show ?case
  proof (cases x)
    case (Inl e')
    with Cons.prems r have "e' = e" by (simp add: Let_def)
    with r Inl have "fst ?r = Inl e" by simp
    then show ?thesis by (intro exI[of _ i] exI[of _ c] exI[of _ w]) simp
  next
    case (Inr d)
    with Cons.prems r
    have "fst (document_chunks env b t n (Suc i) cs (doc @ part_section i d, w1)) = Inl e"
      by (simp add: Let_def)
    from Cons.IH [OF this] show ?thesis by auto
  qed
qed

lemma document_chunks_quiet:
  assumes "\<forall>w line. sys_print env w line = None"
  shows "\<exists>out. fst (document_chunks env b t n i chunks (doc, w)) = Inr out"
proof (cases "fst (document_chunks env b t n i chunks (doc, w))")
  case (Inl e)
  from document_chunks_raises [OF this] obtain k chunk wk where
    "fst (document_with_ollama env wk chunk b t (part_info_text k n)) = Inl e"
    by blast
  with document_with_ollama_quiet [OF assms, of wk chunk b t "part_info_text k n"]
  show ?thesis by simp
next
  case (Inr out)
  then show ?thesis by simp
qed

lemma document_with_ollama_prompt_part_info:
  "\<exists>a b. document_with_ollama_prompt chunk f t part_info = a @ part_info @ b"
  unfolding document_with_ollama_prompt_def by (rule in_concat_split) simp

lemma document_with_ollama_prompt_chunk:
  "\<exists>a b. document_with_ollama_prompt chunk f t part_info = a @ chunk @ b"
  unfolding document_with_ollama_prompt_def by (rule in_concat_split) simp

lemma file_markdown_doc_quiet:
  assumes "\<forall>w line. sys_print env w line = None"
  shows "\<exists>doc. fst (file_markdown_doc env w rel b t content) = Inr doc"
proof (cases "1 < length (chunk_content content (CHUNK_SIZE_CHARACTERS env))")
  case True
  then show ?thesis
    by (simp only: file_markdown_doc_many) (rule document_chunks_quiet [OF assms])
next
  case False
  then have n: "length (chunk_content content (CHUNK_SIZE_CHARACTERS env)) \<le> 1" by simp
  from document_with_ollama_quiet [OF assms, of w content b t "[]"]
  show ?thesis by (auto simp: file_markdown_doc_single [OF n])
qed

text \<open>
  C5. Per-file document ordering. The claim is about the document that is produced, so
  about a run of \<open>file_markdown_doc\<close> that returns one; it returns one whenever no
  \<open>print\<close> raises, and an exception that leaves it is one that left an inference call
  on a chunk. When the content of a file splits into \<open>N > 1\<close> chunks, the document is
  the header followed by exactly \<open>N\<close> sections, one for each chunk in order, the
  section of the chunk at index \<open>i\<close> being what the inference call on that chunk
  returned under the header \<open>## Part i+1\<close>; the requests posted are the \<open>N\<close> prompts
  of the chunks in order, each carrying its annotation \<open>(Part i+1 of N)\<close>. When there
  is at most one chunk, the document is the header followed by the single result, and the
  one prompt has an empty annotation.
\<close>

theorem per_file_document_order:
  "(1 < length (chunk_content content (CHUNK_SIZE_CHARACTERS env))
      \<and> file_markdown_doc env w rel base_name file_type content = (Inr doc, w') \<longrightarrow>
      (\<exists>docs.
         list_all2 (\<lambda>(i, chunk) chunk_doc. \<exists>wi.
             fst (document_with_ollama env wi chunk base_name file_type
                    (part_info_text i (length (chunk_content content (CHUNK_SIZE_CHARACTERS env)))))
               = Inr chunk_doc)
           (enumerate 0 (chunk_content content (CHUNK_SIZE_CHARACTERS env))) docs
         \<and> doc = file_doc_header env rel file_type
               @ concat (map (\<lambda>(i, chunk_doc). part_section i chunk_doc) (enumerate 0 docs))
         \<and> posted w'
             = posted w @ map (\<lambda>(i, chunk). document_with_ollama_payload env
                 (document_with_ollama_prompt chunk base_name file_type
                    (part_info_text i (length (chunk_content content (CHUNK_SIZE_CHARACTERS env))))))
                 (enumerate 0 (chunk_content content (CHUNK_SIZE_CHARACTERS env)))))
   \<and> (length (chunk_content content (CHUNK_SIZE_CHARACTERS env)) \<le> 1
      \<and> file_markdown_doc env w rel base_name file_type content = (Inr doc, w') \<longrightarrow>
        (\<exists>single_doc.
           fst (document_with_ollama env w content base_name file_type []) = Inr single_doc
           \<and> doc = file_doc_header env rel file_type @ single_doc)
        \<and> posted w'
          = posted w @ [document_with_ollama_payload env
                (document_with_ollama_prompt content base_name file_type [])])
   \<and> ((\<forall>w line. sys_print env w line = None) \<longrightarrow>
        (\<exists>doc. fst (file_markdown_doc env w rel base_name file_type content) = Inr doc))
   \<and> (fst (file_markdown_doc env w rel base_name file_type content) = Inl e \<longrightarrow>
        (\<exists>chunk part_info wi.
           fst (document_with_ollama env wi chunk base_name file_type part_info) = Inl e))
   \<and> part_section i chunk_doc
        = str ''## Part '' @ str_nat (i + 1) @ NL @ NL @ chunk_doc @ NL @ NL @ str ''---'' @ NL @ NL
   \<and> part_info_text i n = str ''(Part '' @ str_nat (i + 1) @ str '' of '' @ str_nat n @ str '')''
   \<and> (\<exists>a b. document_with_ollama_prompt chunk base_name file_type part_info = a @ part_info @ b)"
proof (intro conjI impI)
  let ?chunks = "chunk_content content (CHUNK_SIZE_CHARACTERS env)"
  assume "1 < length ?chunks
      \<and> file_markdown_doc env w rel base_name file_type content = (Inr doc, w')"
  then have n: "1 < length ?chunks"
    and r: "file_markdown_doc env w rel base_name file_type content = (Inr doc, w')"
    by simp_all
  from r have "document_chunks env base_name file_type (length ?chunks) 0 ?chunks
          (file_doc_header env rel file_type, w) = (Inr doc, w')"
    by (simp only: file_markdown_doc_many [OF n])
  then show "\<exists>docs.
         list_all2 (\<lambda>(i, chunk) chunk_doc. \<exists>wi.
             fst (document_with_ollama env wi chunk base_name file_type
                    (part_info_text i (length ?chunks))) = Inr chunk_doc)
           (enumerate 0 ?chunks) docs
         \<and> doc = file_doc_header env rel file_type
               @ concat (map (\<lambda>(i, chunk_doc). part_section i chunk_doc) (enumerate 0 docs))
         \<and> posted w'
             = posted w @ map (\<lambda>(i, chunk). document_with_ollama_payload env
                 (document_with_ollama_prompt chunk base_name file_type
                    (part_info_text i (length ?chunks))))
                 (enumerate 0 ?chunks)"
    by (rule document_chunks_sections)
next
  let ?chunks = "chunk_content content (CHUNK_SIZE_CHARACTERS env)"
  assume "length ?chunks \<le> 1
      \<and> file_markdown_doc env w rel base_name file_type content = (Inr doc, w')"
  then have n: "length ?chunks \<le> 1"
    and r: "file_markdown_doc env w rel base_name file_type content = (Inr doc, w')"
    by simp_all
  from r show "\<exists>single_doc.
           fst (document_with_ollama env w content base_name file_type []) = Inr single_doc
           \<and> doc = file_doc_header env rel file_type @ single_doc"
    by (simp add: file_markdown_doc_single [OF n] split: sum.splits)
  from r show "posted w'
          = posted w @ [document_with_ollama_payload env
                (document_with_ollama_prompt content base_name file_type [])]"
    by (auto simp: file_markdown_doc_single [OF n] posted_log_post)
next
  assume "\<forall>w line. sys_print env w line = None"
  then show "\<exists>doc. fst (file_markdown_doc env w rel base_name file_type content) = Inr doc"
    by (rule file_markdown_doc_quiet)
next
  let ?chunks = "chunk_content content (CHUNK_SIZE_CHARACTERS env)"
  assume e: "fst (file_markdown_doc env w rel base_name file_type content) = Inl e"
  show "\<exists>chunk part_info wi.
           fst (document_with_ollama env wi chunk base_name file_type part_info) = Inl e"
  proof (cases "1 < length ?chunks")
    case True
    from e have "fst (document_chunks env base_name file_type (length ?chunks) 0 ?chunks
          (file_doc_header env rel file_type, w)) = Inl e"
      by (simp only: file_markdown_doc_many [OF True])
    from document_chunks_raises [OF this] show ?thesis by blast
  next
    case False
    then have n: "length ?chunks \<le> 1" by simp
    from e have "fst (document_with_ollama env w content base_name file_type []) = Inl e"
      by (simp add: file_markdown_doc_single [OF n] split: sum.splits)
    then show ?thesis by blast
  qed
next
  show "part_section i chunk_doc
        = str ''## Part '' @ str_nat (i + 1) @ NL @ NL @ chunk_doc @ NL @ NL @ str ''---'' @ NL @ NL"
    by (simp add: part_section_def)
  show "part_info_text i n = str ''(Part '' @ str_nat (i + 1) @ str '' of '' @ str_nat n @ str '')''"
    by (simp add: part_info_text_def)
  show "\<exists>a b. document_with_ollama_prompt chunk base_name file_type part_info = a @ part_info @ b"
    by (rule document_with_ollama_prompt_part_info)
qed

text \<open>
  Witness of C5: with budget 3 the content \<open>ab LF cd LF\<close> has two chunks, and with an
  endpoint that answers \<open>ok\<close> the document is the header, \<open>## Part 1\<close> and
  \<open>## Part 2\<close>, after the two requests of the chunks; the content \<open>ab LF\<close> has one
  chunk and its document is the header and the result. With an endpoint that answers
  with status 500 and a body that the standard output cannot encode, no document is
  produced, and the exception is the one that left the inference call.
\<close>

theorem per_file_document_order_witness:
  "1 < length (chunk_content (str ''ab'' @ NL @ str ''cd'' @ NL)
         (CHUNK_SIZE_CHARACTERS (example_env post_ok [] [] [] 3)))
   \<and> (\<forall>w line. sys_print (example_env post_ok [] [] [] 3) w line = None)
   \<and> fst (file_markdown_doc (example_env post_ok [] [] [] 3) empty_world (str ''a.py'') (str ''a.py'')
          (str ''python'') (str ''ab'' @ NL @ str ''cd'' @ NL))
       = Inr (file_doc_header (example_env post_ok [] [] [] 3) (str ''a.py'') (str ''python'')
              @ part_section 0 (str ''ok'') @ part_section 1 (str ''ok''))
   \<and> posted (snd (file_markdown_doc (example_env post_ok [] [] [] 3) empty_world (str ''a.py'')
          (str ''a.py'') (str ''python'') (str ''ab'' @ NL @ str ''cd'' @ NL)))
       = [document_with_ollama_payload (example_env post_ok [] [] [] 3)
            (document_with_ollama_prompt (str ''ab'' @ NL) (str ''a.py'') (str ''python'')
               (str ''(Part 1 of 2)'')),
          document_with_ollama_payload (example_env post_ok [] [] [] 3)
            (document_with_ollama_prompt (str ''cd'' @ NL) (str ''a.py'') (str ''python'')
               (str ''(Part 2 of 2)''))]
   \<and> part_section 1 (str ''ok'')
       = str ''## Part 2'' @ NL @ NL @ str ''ok'' @ NL @ NL @ str ''---'' @ NL @ NL
   \<and> part_info_text 1 2 = str ''(Part 2 of 2)''
   \<and> length (chunk_content (str ''ab'' @ NL)
         (CHUNK_SIZE_CHARACTERS (example_env post_ok [] [] [] 3))) \<le> 1
   \<and> fst (file_markdown_doc (example_env post_ok [] [] [] 3) empty_world (str ''a.py'') (str ''a.py'')
          (str ''python'') (str ''ab'' @ NL))
       = Inr (file_doc_header (example_env post_ok [] [] [] 3) (str ''a.py'') (str ''python'')
              @ str ''ok'')
   \<and> fst (file_markdown_doc ascii_stdout_env empty_world (str ''b.py'') (str ''b.py'')
          (str ''python'') (str ''x'' @ NL))
       = Inl (Exception ([39] @ str ''ascii'' @ [39] @ str '' codec can'' @ [39]
                 @ str ''t encode character '' @ [39, 92] @ str ''u2603'' @ [39]
                 @ str '' in position 118: ordinal not in range(128)''))
   \<and> (\<exists>chunk part_info wi.
         fst (document_with_ollama ascii_stdout_env wi chunk (str ''b.py'') (str ''python'')
                part_info)
           = Inl (Exception ([39] @ str ''ascii'' @ [39] @ str '' codec can'' @ [39]
                 @ str ''t encode character '' @ [39, 92] @ str ''u2603'' @ [39]
                 @ str '' in position 118: ordinal not in range(128)'')))"
proof -
  let ?E = "example_env post_ok [] [] [] 3"
  let ?C = "str ''ab'' @ NL @ str ''cd'' @ NL"
  let ?m2 = "file_markdown_doc ?E empty_world (str ''a.py'') (str ''a.py'') (str ''python'') ?C"
  let ?m1 = "file_markdown_doc ?E empty_world (str ''a.py'') (str ''a.py'') (str ''python'')
      (str ''ab'' @ NL)"
  have q: "\<forall>w line. sys_print ?E w line = None" by simp
  have h2: "1 < length (chunk_content ?C (CHUNK_SIZE_CHARACTERS ?E))"
    by (simp add: chunks_two)
  have h1: "length (chunk_content (str ''ab'' @ NL) (CHUNK_SIZE_CHARACTERS ?E)) \<le> 1"
    by (simp add: chunks_one)
  from per_file_document_order [where env = ?E and w = empty_world and rel = "str ''a.py''"
      and base_name = "str ''a.py''" and file_type = "str ''python''" and content = ?C,
      THEN conjunct2, THEN conjunct2, THEN conjunct1, THEN mp, OF q]
  obtain doc2 where f2: "fst ?m2 = Inr doc2" by blast
  then have r2: "?m2 = (Inr doc2, snd ?m2)" by (simp add: prod_eq_iff)
  from per_file_document_order [where env = ?E and w = empty_world and rel = "str ''a.py''"
      and base_name = "str ''a.py''" and file_type = "str ''python''" and content = ?C
      and doc = doc2 and w' = "snd ?m2", THEN conjunct1, THEN mp, OF conjI [OF h2 r2]]
  obtain docs where
    d: "list_all2 (\<lambda>(i, chunk) chunk_doc. \<exists>wi.
             fst (document_with_ollama ?E wi chunk (str ''a.py'') (str ''python'')
                    (part_info_text i (length (chunk_content ?C (CHUNK_SIZE_CHARACTERS ?E)))))
               = Inr chunk_doc)
           (enumerate 0 (chunk_content ?C (CHUNK_SIZE_CHARACTERS ?E))) docs"
    and f: "doc2 = file_doc_header ?E (str ''a.py'') (str ''python'')
               @ concat (map (\<lambda>(i, chunk_doc). part_section i chunk_doc) (enumerate 0 docs))"
    and p: "posted (snd ?m2)
             = posted empty_world @ map (\<lambda>(i, chunk). document_with_ollama_payload ?E
                 (document_with_ollama_prompt chunk (str ''a.py'') (str ''python'')
                    (part_info_text i (length (chunk_content ?C (CHUNK_SIZE_CHARACTERS ?E))))))
                 (enumerate 0 (chunk_content ?C (CHUNK_SIZE_CHARACTERS ?E)))"
    by blast
  from d have "docs = [str ''ok'', str ''ok'']"
    by (simp add: chunks_two list_all2_Cons1 post_ok_document)
  with f f2 have 1: "fst ?m2 = Inr (file_doc_header ?E (str ''a.py'') (str ''python'')
         @ part_section 0 (str ''ok'') @ part_section 1 (str ''ok''))"
    by simp
  note t = per_file_document_order [where i = 1 and n = 2 and chunk_doc = "str ''ok''"]
  have 3: "part_section 1 (str ''ok'')
       = str ''## Part 2'' @ NL @ NL @ str ''ok'' @ NL @ NL @ str ''---'' @ NL @ NL"
    using t [THEN conjunct2, THEN conjunct2, THEN conjunct2, THEN conjunct2, THEN conjunct1]
    by (simp add: str_nat.simps str_def)
  have 4: "part_info_text 1 2 = str ''(Part 2 of 2)''"
    using t [THEN conjunct2, THEN conjunct2, THEN conjunct2, THEN conjunct2, THEN conjunct2,
        THEN conjunct1]
    by (simp add: str_nat.simps str_def)
  have 40: "part_info_text 0 (Suc (Suc 0)) = str ''(Part 1 of 2)''"
    by (simp add: part_info_text_def str_nat.simps str_def)
  have 41: "part_info_text (Suc 0) (Suc (Suc 0)) = str ''(Part 2 of 2)''"
    using 4 by (simp add: numeral_2_eq_2)
  from p have 2: "posted (snd ?m2)
       = [document_with_ollama_payload ?E
            (document_with_ollama_prompt (str ''ab'' @ NL) (str ''a.py'') (str ''python'')
               (str ''(Part 1 of 2)'')),
          document_with_ollama_payload ?E
            (document_with_ollama_prompt (str ''cd'' @ NL) (str ''a.py'') (str ''python'')
               (str ''(Part 2 of 2)''))]"
    by (simp add: chunks_two 40 41 empty_world_def)
  from per_file_document_order [where env = ?E and w = empty_world and rel = "str ''a.py''"
      and base_name = "str ''a.py''" and file_type = "str ''python''"
      and content = "str ''ab'' @ NL",
      THEN conjunct2, THEN conjunct2, THEN conjunct1, THEN mp, OF q]
  obtain doc1 where f1: "fst ?m1 = Inr doc1" by blast
  then have r1: "?m1 = (Inr doc1, snd ?m1)" by (simp add: prod_eq_iff)
  from per_file_document_order [where env = ?E and w = empty_world and rel = "str ''a.py''"
      and base_name = "str ''a.py''" and file_type = "str ''python''"
      and content = "str ''ab'' @ NL" and doc = doc1 and w' = "snd ?m1",
      THEN conjunct2, THEN conjunct1, THEN mp, OF conjI [OF h1 r1], THEN conjunct1]
  have "doc1 = file_doc_header ?E (str ''a.py'') (str ''python'') @ str ''ok''"
    by (auto simp: post_ok_document)
  with f1 have 5: "fst ?m1 = Inr (file_doc_header ?E (str ''a.py'') (str ''python'') @ str ''ok'')"
    by simp
  have 6: "fst (file_markdown_doc ascii_stdout_env empty_world (str ''b.py'') (str ''b.py'')
          (str ''python'') (str ''x'' @ NL))
       = Inl (Exception ([39] @ str ''ascii'' @ [39] @ str '' codec can'' @ [39]
                 @ str ''t encode character '' @ [39, 92] @ str ''u2603'' @ [39]
                 @ str '' in position 118: ordinal not in range(128)''))"
    by (simp add: file_markdown_doc_def Let_def ascii_stdout_document ascii_stdout_env_fields
        chunk_content_def splitlines_def NL_def str_def)
  note 7 = per_file_document_order [where env = ascii_stdout_env and w = empty_world
      and rel = "str ''b.py''" and base_name = "str ''b.py''" and file_type = "str ''python''"
      and content = "str ''x'' @ NL",
      THEN conjunct2, THEN conjunct2, THEN conjunct2, THEN conjunct1, THEN mp, OF 6]
  show ?thesis
    by (intro conjI) (rule h2 q 1 2 3 4 h1 5 6 7)+
qed

section \<open>The run and its index\<close>

lemma document_with_ollama_written:
  "document_with_ollama env w c f t p = (r, w') \<Longrightarrow> written w' = written w"
  using document_with_ollama_snd [of env w c f t p] by (simp add: written_log_post)

lemma document_chunks_written:
  "written (snd (document_chunks env b t n i chunks (doc, w))) = written w"
proof (induction chunks arbitrary: i doc w)
  case Nil
  show ?case by simp
next
  case (Cons c cs)
  obtain x w1 where r: "document_with_ollama env w c b t (part_info_text i n) = (x, w1)"
    by (cases "document_with_ollama env w c b t (part_info_text i n)") auto
  from document_with_ollama_written [OF r] have w1: "written w1 = written w" .
  show ?case
    by (cases x) (simp_all add: r w1 Let_def Cons.IH)
qed

lemma file_markdown_doc_written:
  "written (snd (file_markdown_doc env w rel b t content)) = written w"
proof (cases "1 < length (chunk_content content (CHUNK_SIZE_CHARACTERS env))")
  case True
  then show ?thesis
    by (simp only: file_markdown_doc_many) (rule document_chunks_written)
next
  case False
  then have "length (chunk_content content (CHUNK_SIZE_CHARACTERS env)) \<le> 1" by simp
  then show ?thesis
    by (simp add: file_markdown_doc_single written_log_post)
qed

lemma process_file_written:
  assumes "process_file env s d f (info, w) = (Inr info', w')"
  shows "(info' = info \<and> written w' = written w)
     \<or> (\<exists>doc. info' = info @ [doc_paths env s d (str ''_doc.md'') f]
           \<and> written w' = written w @ [(snd (doc_paths env s d (str ''_doc.md'') f), doc)])"
proof (cases "read_file_content env w f")
  case None
  with assms show ?thesis by (simp add: process_file_def Let_def split_beta)
next
  case (Some content)
  let ?p = "doc_paths env s d (str ''_doc.md'') f"
  let ?b = "os_path_basename env f"
  let ?m = "file_markdown_doc env w (fst ?p) ?b
      (get_file_type (unicode_data env) (snd (os_path_splitext env ?b))) content"
  obtain x w1 where m: "?m = (x, w1)" by (cases ?m) auto
  from assms Some m obtain doc where x: "x = Inr doc"
    by (cases x) (simp_all add: process_file_def Let_def split_beta)
  from m have w1: "written w1 = written w"
    using file_markdown_doc_written [of env w "fst ?p" ?b
        "get_file_type (unicode_data env) (snd (os_path_splitext env ?b))" content]
    by simp
  let ?sv = "save_markdown env w1 (snd ?p) doc"
  have sv: "?sv = (fst ?sv, snd ?sv)" by simp
  have e: "process_file env s d f (info, w) =
      (case fst ?sv of Inl e \<Rightarrow> (Inl e, snd ?sv)
       | Inr saved \<Rightarrow> (Inr (if saved then info @ [?p] else info), snd ?sv))"
    using Some m x by (simp add: process_file_def Let_def split_beta split: sum.splits)
  from sv show ?thesis
  proof (cases rule: save_markdown_cases)
    case (1 msg)
    with e assms show ?thesis by simp
  next
    case 2
    with e assms show ?thesis by (auto simp: w1)
  next
    case 3
    with e assms show ?thesis by (auto simp: w1)
  qed
qed

lemma process_files_written:
  assumes "process_files env s d fs (info, w) = (Inr info', w')"
  shows "\<exists>gs docs. subseq gs fs
      \<and> info' = info @ map (doc_paths env s d (str ''_doc.md'')) gs
      \<and> written w' = written w @ docs
      \<and> map fst docs = map (\<lambda>f. snd (doc_paths env s d (str ''_doc.md'') f)) gs"
  using assms
proof (induction fs arbitrary: info w)
  case Nil
  then have "info' = info" "w' = w" by simp_all
  then show ?case by (intro exI[of _ "[]"]) simp
next
  case (Cons f fs)
  obtain r w1 where pf: "process_file env s d f (info, w) = (r, w1)"
    by (cases "process_file env s d f (info, w)") auto
  with Cons.prems obtain info1 where r: "r = Inr info1"
    by (cases r) auto
  with pf Cons.prems have rest: "process_files env s d fs (info1, w1) = (Inr info', w')"
    by simp
  from Cons.IH[OF rest] obtain gs docs where g: "subseq gs fs"
      "info' = info1 @ map (doc_paths env s d (str ''_doc.md'')) gs"
      "written w' = written w1 @ docs"
      "map fst docs = map (\<lambda>f. snd (doc_paths env s d (str ''_doc.md'') f)) gs"
    by blast
  from process_file_written[OF pf[unfolded r]]
  show ?case
  proof
    assume a: "info1 = info \<and> written w1 = written w"
    have "subseq gs (f # fs)" using g(1) by (rule list_emb_Cons)
    with a g show ?thesis by auto
  next
    assume "\<exists>doc. info1 = info @ [doc_paths env s d (str ''_doc.md'') f]
           \<and> written w1 = written w @ [(snd (doc_paths env s d (str ''_doc.md'') f), doc)]"
    then obtain doc where a: "info1 = info @ [doc_paths env s d (str ''_doc.md'') f]"
        "written w1 = written w @ [(snd (doc_paths env s d (str ''_doc.md'') f), doc)]"
      by blast
    have sub: "subseq (f # gs) (f # fs)" using g(1) by (rule subseq_Cons2)
    show ?thesis
    proof (intro exI[of _ "f # gs"] exI[of _ "(snd (doc_paths env s d (str ''_doc.md'') f), doc) # docs"] conjI)
      show "subseq (f # gs) (f # fs)" by (rule sub)
      show "info' = info @ map (doc_paths env s d (str ''_doc.md'')) (f # gs)"
        using a(1) g(2) by simp
      show "written w' = written w @ (snd (doc_paths env s d (str ''_doc.md'') f), doc) # docs"
        using a(2) g(3) by simp
      show "map fst ((snd (doc_paths env s d (str ''_doc.md'') f), doc) # docs)
          = map (\<lambda>f. snd (doc_paths env s d (str ''_doc.md'') f)) (f # gs)"
        using g(4) by simp
    qed
  qed
qed

lemma foldl_append_concat: "foldl (\<lambda>acc x. acc @ g x) a xs = a @ concat (map g xs)"
  by (induction xs arbitrary: a) simp_all

lemma toc_text_empty: "toc_text env [] out = toc_header @ str ''No supported files were documented.'' @ NL"
  by (simp add: toc_text_def)

lemma toc_text_entries:
  "info \<noteq> [] \<Longrightarrow> toc_text env info out =
     toc_header @ concat (map (toc_entry env out) (sort_key (\<lambda>x. py_lower (unicode_data env) (fst x)) info))"
  by (simp add: toc_text_def foldl_append_concat)

lemma generate_table_of_contents_written:
  assumes "generate_table_of_contents env w info out = (Inr u, w')"
  shows "written w' = written w @ [(os_path_join env out (str ''TABLE_OF_CONTENTS.md''), toc_text env info out)]
     \<or> written w' = written w"
proof -
  let ?p = "os_path_join env out (str ''TABLE_OF_CONTENTS.md'')"
  obtain r w2 where sv: "save_markdown env w ?p (toc_text env info out) = (r, w2)"
    by (cases "save_markdown env w ?p (toc_text env info out)") auto
  from sv show ?thesis
  proof (cases rule: save_markdown_cases)
    case (1 msg)
    with sv assms show ?thesis by (simp add: generate_table_of_contents_def)
  next
    case 2
    with sv assms show ?thesis by (auto simp: generate_table_of_contents_def)
  next
    case 3
    with sv assms show ?thesis by (auto simp: generate_table_of_contents_def)
  qed
qed

lemma main_documentation_Returned:
  assumes "main_documentation env w src out = (Returned, w')"
  shows "\<exists>info w1 u. os_path_isdir env w src \<and> os_makedirs env w out = None
     \<and> scan_directory env w src \<noteq> []
     \<and> process_files env src out (scan_directory env w src) ([], w) = (Inr info, w1)
     \<and> generate_table_of_contents env w1 info out = (Inr u, w')"
proof -
  from assms have 1: "os_path_isdir env w src"
    by (auto simp: main_documentation_def split: if_splits)
  from assms 1 have 2: "os_makedirs env w out = None"
    by (auto simp: main_documentation_def split: option.splits)
  from assms 1 2 have 3: "scan_directory env w src \<noteq> []"
    by (auto simp: main_documentation_def Let_def split: if_splits)
  obtain r w1 where pf: "process_files env src out (scan_directory env w src) ([], w) = (r, w1)"
    by (cases "process_files env src out (scan_directory env w src) ([], w)") auto
  from assms 1 2 3 pf obtain info where r: "r = Inr info"
    by (cases r) (auto simp: main_documentation_def Let_def)
  obtain r2 w2 where g: "generate_table_of_contents env w1 info out = (r2, w2)"
    by (cases "generate_table_of_contents env w1 info out") auto
  from assms 1 2 3 pf r g obtain u where "r2 = Inr u" "w2 = w'"
    by (cases r2) (auto simp: main_documentation_def Let_def)
  with 1 2 3 pf r g show ?thesis by blast
qed


text \<open>
  C7. Index completeness and order. In a run of \<open>main_documentation\<close> that returns,
  the documents written are those of a subsequence \<open>fs\<close> of the scanned files, in
  order; the list \<open>info\<close> handed to the index holds exactly the pairs (relative path,
  path of the document) of these files, so a file that could not be read or whose document
  could not be written is not in it; and the index, when its own write succeeds, is written
  last and lists the entries of \<open>info\<close> sorted by the lowercased relative path, each
  entry once.
\<close>

theorem index_complete_sorted:
  assumes "main_documentation env w src out = (Returned, w')"
  shows "\<exists>fs docs info.
      subseq fs (scan_directory env w src)
      \<and> info = map (doc_paths env src out (str ''_doc.md'')) fs
      \<and> map fst docs = map snd info
      \<and> (written w' = written w @ docs
             @ [(os_path_join env out (str ''TABLE_OF_CONTENTS.md''), toc_text env info out)]
           \<or> written w' = written w @ docs)
      \<and> toc_text env info out =
          (if info = [] then toc_header @ str ''No supported files were documented.'' @ NL
           else toc_header @ concat (map (toc_entry env out)
                  (sort_key (\<lambda>x. py_lower (unicode_data env) (fst x)) info)))
      \<and> sorted (map (\<lambda>x. py_lower (unicode_data env) (fst x)) (sort_key (\<lambda>x. py_lower (unicode_data env) (fst x)) info))
      \<and> mset (sort_key (\<lambda>x. py_lower (unicode_data env) (fst x)) info) = mset info"
proof -
  from main_documentation_Returned[OF assms] obtain info w1 u where
    m: "process_files env src out (scan_directory env w src) ([], w) = (Inr info, w1)"
       "generate_table_of_contents env w1 info out = (Inr u, w')"
    by blast
  from process_files_written[OF m(1)] obtain gs docs where
    g: "subseq gs (scan_directory env w src)"
       "info = map (doc_paths env src out (str ''_doc.md'')) gs"
       "written w1 = written w @ docs"
       "map fst docs = map (\<lambda>f. snd (doc_paths env src out (str ''_doc.md'') f)) gs"
    by auto
  have t: "written w' = written w @ docs
             @ [(os_path_join env out (str ''TABLE_OF_CONTENTS.md''), toc_text env info out)]
           \<or> written w' = written w @ docs"
    using generate_table_of_contents_written[OF m(2)] g(3) by auto
  have x: "toc_text env info out =
          (if info = [] then toc_header @ str ''No supported files were documented.'' @ NL
           else toc_header @ concat (map (toc_entry env out)
                  (sort_key (\<lambda>x. py_lower (unicode_data env) (fst x)) info)))"
    by (simp add: toc_text_empty toc_text_entries)
  have s: "sorted (map (\<lambda>x. py_lower (unicode_data env) (fst x)) (sort_key (\<lambda>x. py_lower (unicode_data env) (fst x)) info))"
    by (rule sorted_sort_key)
  have p: "mset (sort_key (\<lambda>x. py_lower (unicode_data env) (fst x)) info) = mset info"
    by (rule mset_sort)
  have d: "map fst docs = map snd info" using g(2,4) by simp
  from g(1,2) d t x s p show ?thesis by blast
qed

text \<open>
  Witness of C7: the files \<open>b.py\<close>, \<open>A.py\<close> and \<open>c.txt\<close>, the last one
  unreadable. The run returns; it writes the documents of \<open>b.py\<close> and \<open>A.py\<close> and
  then the index, which lists \<open>A.py\<close> before \<open>b.py\<close> and does not list \<open>c.txt\<close>.
\<close>

theorem index_complete_sorted_witness:
  "fst (main_documentation index_example_env empty_world (str ''src'') (str ''out'')) = Returned
   \<and> map fst (written (snd (main_documentation index_example_env empty_world (str ''src'') (str ''out''))))
       = [str ''out/b_doc.md'', str ''out/A_doc.md'', str ''out/TABLE_OF_CONTENTS.md'']
   \<and> snd (last (written (snd (main_documentation index_example_env empty_world (str ''src'') (str ''out'')))))
       = toc_header @ str ''* [`A.py`](A_doc.md)'' @ NL @ str ''* [`b.py`](b_doc.md)'' @ NL
   \<and> (\<exists>fs docs info.
      subseq fs (scan_directory index_example_env empty_world (str ''src''))
      \<and> info = map (doc_paths index_example_env (str ''src'') (str ''out'') (str ''_doc.md'')) fs
      \<and> map fst docs = map snd info
      \<and> (written (snd (main_documentation index_example_env empty_world (str ''src'') (str ''out''))) = written empty_world @ docs
             @ [(os_path_join index_example_env (str ''out'') (str ''TABLE_OF_CONTENTS.md''), toc_text index_example_env info (str ''out''))]
           \<or> written (snd (main_documentation index_example_env empty_world (str ''src'') (str ''out''))) = written empty_world @ docs)
      \<and> toc_text index_example_env info (str ''out'') =
          (if info = [] then toc_header @ str ''No supported files were documented.'' @ NL
           else toc_header @ concat (map (toc_entry index_example_env (str ''out''))
                  (sort_key (\<lambda>x. py_lower (unicode_data index_example_env) (fst x)) info)))
      \<and> sorted (map (\<lambda>x. py_lower (unicode_data index_example_env) (fst x)) (sort_key (\<lambda>x. py_lower (unicode_data index_example_env) (fst x)) info))
      \<and> mset (sort_key (\<lambda>x. py_lower (unicode_data index_example_env) (fst x)) info) = mset info)"
proof (intro conjI)
  show "fst (main_documentation index_example_env empty_world (str ''src'') (str ''out'')) = Returned"
    by (simp add: main_index_example)
  show "map fst (written (snd (main_documentation index_example_env empty_world (str ''src'') (str ''out''))))
       = [str ''out/b_doc.md'', str ''out/A_doc.md'', str ''out/TABLE_OF_CONTENTS.md'']"
    by (simp add: main_index_example)
  show "snd (last (written (snd (main_documentation index_example_env empty_world (str ''src'') (str ''out'')))))
       = toc_header @ str ''* [`A.py`](A_doc.md)'' @ NL @ str ''* [`b.py`](b_doc.md)'' @ NL"
    by (simp add: main_index_example)
  have h: "main_documentation index_example_env empty_world (str ''src'') (str ''out'')
      = (Returned, snd (main_documentation index_example_env empty_world (str ''src'') (str ''out'')))"
    by (simp add: main_index_example)
  show "\<exists>fs docs info.
      subseq fs (scan_directory index_example_env empty_world (str ''src''))
      \<and> info = map (doc_paths index_example_env (str ''src'') (str ''out'') (str ''_doc.md'')) fs
      \<and> map fst docs = map snd info
      \<and> (written (snd (main_documentation index_example_env empty_world (str ''src'') (str ''out''))) = written empty_world @ docs
             @ [(os_path_join index_example_env (str ''out'') (str ''TABLE_OF_CONTENTS.md''), toc_text index_example_env info (str ''out''))]
           \<or> written (snd (main_documentation index_example_env empty_world (str ''src'') (str ''out''))) = written empty_world @ docs)
      \<and> toc_text index_example_env info (str ''out'') =
          (if info = [] then toc_header @ str ''No supported files were documented.'' @ NL
           else toc_header @ concat (map (toc_entry index_example_env (str ''out''))
                  (sort_key (\<lambda>x. py_lower (unicode_data index_example_env) (fst x)) info)))
      \<and> sorted (map (\<lambda>x. py_lower (unicode_data index_example_env) (fst x)) (sort_key (\<lambda>x. py_lower (unicode_data index_example_env) (fst x)) info))
      \<and> mset (sort_key (\<lambda>x. py_lower (unicode_data index_example_env) (fst x)) info) = mset info"
    by (rule index_complete_sorted [OF h])
qed






section \<open>The deep pipeline\<close>

lemma summary_prompt_content: "\<exists>a b. summary_prompt content f t = a @ content @ b"
  unfolding summary_prompt_def by (rule in_concat_split) simp

lemma components_prompt_content: "\<exists>a b. components_prompt content f t = a @ content @ b"
  unfolding components_prompt_def by (rule in_concat_split) simp

lemma examples_prompt_content: "\<exists>a b. examples_prompt content f t = a @ content @ b"
  unfolding examples_prompt_def by (rule in_concat_split) simp

lemma call_ollama_quiet:
  assumes "\<forall>w line. sys_print env w line = None"
  shows "\<exists>r. fst (call_ollama env w p m t n) = Inr r"
  by (cases "ollama_try env w (call_ollama_payload p m t n)")
     (simp_all add: call_ollama_def Let_def except_clause_def print_lines_quiet [OF assms])

lemma call_ollama_pair:
  "call_ollama env w p m t n
     = (fst (call_ollama env w p m t n), log_post w (call_ollama_payload p m t n))"
  by (simp add: call_ollama_def Let_def)

lemma document_file_with_ollama_first:
  assumes "fst (call_ollama env w (summary_prompt content f t) (OLLAMA_MODEL env) (str ''0.2'') 1024)
     = Inl e"
  shows "document_file_with_ollama env w content f t
     = (Inl e, log_post w (call_ollama_payload (summary_prompt content f t) (OLLAMA_MODEL env)
          (str ''0.2'') 1024))"
proof -
  have "call_ollama env w (summary_prompt content f t) (OLLAMA_MODEL env) (str ''0.2'') 1024
     = (Inl e, log_post w (call_ollama_payload (summary_prompt content f t) (OLLAMA_MODEL env)
          (str ''0.2'') 1024))"
    using assms call_ollama_pair [of env w "summary_prompt content f t" "OLLAMA_MODEL env"
        "str ''0.2''" 1024]
    by simp
  then show ?thesis by (simp add: document_file_with_ollama_def)
qed

lemma document_file_with_ollama_returns:
  assumes "document_file_with_ollama env w content f t = (Inr doc, w')"
  shows "\<exists>summary components_doc examples_doc w1 w2.
     call_ollama env w (summary_prompt content f t) (OLLAMA_MODEL env) (str ''0.2'') 1024
       = (Inr summary, w1)
     \<and> call_ollama env w1 (components_prompt content f t) (OLLAMA_MODEL env) (str ''0.2'') 1024
       = (Inr components_doc, w2)
     \<and> call_ollama env w2 (examples_prompt content f t) (OLLAMA_MODEL env) (str ''0.3'') 1024
       = (Inr examples_doc, w')
     \<and> doc = str ''## Overall Summary'' @ NL @ NL @ summary @ NL @ NL @ str ''---'' @ NL @ NL
           @ str ''## Properties, Variables, and Functions'' @ NL @ NL @ components_doc @ NL @ NL
           @ str ''---'' @ NL @ NL
           @ str ''## Examples on How to Use the Code'' @ NL @ NL @ examples_doc @ NL @ NL
           @ str ''---'' @ NL @ NL
     \<and> posted w'
         = posted w @ [call_ollama_payload (summary_prompt content f t) (OLLAMA_MODEL env) (str ''0.2'') 1024,
                       call_ollama_payload (components_prompt content f t) (OLLAMA_MODEL env) (str ''0.2'') 1024,
                       call_ollama_payload (examples_prompt content f t) (OLLAMA_MODEL env) (str ''0.3'') 1024]"
proof -
  let ?a = "call_ollama env w (summary_prompt content f t) (OLLAMA_MODEL env) (str ''0.2'') 1024"
  obtain x w1 where a: "?a = (x, w1)" by (cases ?a) auto
  with assms obtain summary where x: "x = Inr summary"
    by (cases x) (simp_all add: document_file_with_ollama_def)
  let ?b = "call_ollama env w1 (components_prompt content f t) (OLLAMA_MODEL env) (str ''0.2'') 1024"
  obtain y w2 where b: "?b = (y, w2)" by (cases ?b) auto
  with assms a x obtain components_doc where y: "y = Inr components_doc"
    by (cases y) (simp_all add: document_file_with_ollama_def Let_def)
  let ?c = "call_ollama env w2 (examples_prompt content f t) (OLLAMA_MODEL env) (str ''0.3'') 1024"
  obtain z w3 where c: "?c = (z, w3)" by (cases ?c) auto
  with assms a x b y obtain examples_doc where z: "z = Inr examples_doc"
    by (cases z) (simp_all add: document_file_with_ollama_def Let_def)
  from assms a x b y c z have w3: "w3 = w'"
    and doc: "doc = str ''## Overall Summary'' @ NL @ NL @ summary @ NL @ NL @ str ''---'' @ NL @ NL
           @ str ''## Properties, Variables, and Functions'' @ NL @ NL @ components_doc @ NL @ NL
           @ str ''---'' @ NL @ NL
           @ str ''## Examples on How to Use the Code'' @ NL @ NL @ examples_doc @ NL @ NL
           @ str ''---'' @ NL @ NL"
    by (simp_all add: document_file_with_ollama_def Let_def)
  have p1: "w1 = log_post w (call_ollama_payload (summary_prompt content f t) (OLLAMA_MODEL env) (str ''0.2'') 1024)"
    using a call_ollama_snd [of env w "summary_prompt content f t" "OLLAMA_MODEL env" "str ''0.2''" 1024]
    by simp
  have p2: "w2 = log_post w1 (call_ollama_payload (components_prompt content f t) (OLLAMA_MODEL env) (str ''0.2'') 1024)"
    using b call_ollama_snd [of env w1 "components_prompt content f t" "OLLAMA_MODEL env" "str ''0.2''" 1024]
    by simp
  have p3: "w3 = log_post w2 (call_ollama_payload (examples_prompt content f t) (OLLAMA_MODEL env) (str ''0.3'') 1024)"
    using c call_ollama_snd [of env w2 "examples_prompt content f t" "OLLAMA_MODEL env" "str ''0.3''" 1024]
    by simp
  have p: "posted w'
         = posted w @ [call_ollama_payload (summary_prompt content f t) (OLLAMA_MODEL env) (str ''0.2'') 1024,
                       call_ollama_payload (components_prompt content f t) (OLLAMA_MODEL env) (str ''0.2'') 1024,
                       call_ollama_payload (examples_prompt content f t) (OLLAMA_MODEL env) (str ''0.3'') 1024]"
    by (simp add: w3 [symmetric] p3 p2 p1 posted_log_post)
  show ?thesis
    by (rule exI [of _ summary], rule exI [of _ components_doc], rule exI [of _ examples_doc],
        rule exI [of _ w1], rule exI [of _ w2])
       (simp add: a x b y c z w3 doc p)
qed

lemma document_file_with_ollama_raises:
  assumes "fst (document_file_with_ollama env w content f t) = Inl e"
  shows "\<exists>wi prompt temperature.
     fst (call_ollama env wi prompt (OLLAMA_MODEL env) temperature 1024) = Inl e"
proof -
  let ?a = "call_ollama env w (summary_prompt content f t) (OLLAMA_MODEL env) (str ''0.2'') 1024"
  obtain x w1 where a: "?a = (x, w1)" by (cases ?a) auto
  show ?thesis
  proof (cases x)
    case (Inl e1)
    with assms a have "fst ?a = Inl e" by (simp add: document_file_with_ollama_def)
    then show ?thesis by blast
  next
    case x: (Inr summary)
    let ?b = "call_ollama env w1 (components_prompt content f t) (OLLAMA_MODEL env) (str ''0.2'') 1024"
    obtain y w2 where b: "?b = (y, w2)" by (cases ?b) auto
    show ?thesis
    proof (cases y)
      case (Inl e2)
      with assms a x b have "fst ?b = Inl e" by (simp add: document_file_with_ollama_def Let_def)
      then show ?thesis by blast
    next
      case y: (Inr components_doc)
      let ?c = "call_ollama env w2 (examples_prompt content f t) (OLLAMA_MODEL env) (str ''0.3'') 1024"
      obtain z w3 where c: "?c = (z, w3)" by (cases ?c) auto
      from assms a x b y c have "fst ?c = Inl e"
        by (cases z) (simp_all add: document_file_with_ollama_def Let_def)
      then show ?thesis by blast
    qed
  qed
qed

lemma document_file_with_ollama_quiet:
  assumes "\<forall>w line. sys_print env w line = None"
  shows "\<exists>doc. fst (document_file_with_ollama env w content f t) = Inr doc"
proof (cases "fst (document_file_with_ollama env w content f t)")
  case (Inl e)
  from document_file_with_ollama_raises [OF this] obtain wi prompt temperature where
    "fst (call_ollama env wi prompt (OLLAMA_MODEL env) temperature 1024) = Inl e"
    by blast
  with call_ollama_quiet [OF assms, of wi prompt "OLLAMA_MODEL env" temperature 1024]
  show ?thesis by simp
next
  case (Inr doc)
  then show ?thesis by simp
qed

lemma document_file_with_ollama_written:
  "written (snd (document_file_with_ollama env w content f t)) = written w"
proof -
  let ?a = "call_ollama env w (summary_prompt content f t) (OLLAMA_MODEL env) (str ''0.2'') 1024"
  let ?b = "call_ollama env (snd ?a) (components_prompt content f t) (OLLAMA_MODEL env) (str ''0.2'') 1024"
  let ?c = "call_ollama env (snd ?b) (examples_prompt content f t) (OLLAMA_MODEL env) (str ''0.3'') 1024"
  have "snd (document_file_with_ollama env w content f t) = snd ?a
      \<or> snd (document_file_with_ollama env w content f t) = snd ?b
      \<or> snd (document_file_with_ollama env w content f t) = snd ?c"
    by (simp add: document_file_with_ollama_def Let_def split_beta split: sum.splits)
  then show ?thesis
    by (auto simp: call_ollama_snd written_log_post)
qed

lemma ollama_try_budget [simp]:
  "ollama_try (env\<lparr>CHUNK_SIZE_CHARACTERS := b\<rparr>) w pl = ollama_try env w pl"
  by (simp add: ollama_try_def)

lemma document_error_text_budget [simp]:
  "document_error_text (env\<lparr>CHUNK_SIZE_CHARACTERS := b\<rparr>) e = document_error_text env e"
  by (cases e) (simp_all add: document_error_text_def)

lemma except_prints_budget [simp]:
  "except_prints (env\<lparr>CHUNK_SIZE_CHARACTERS := b\<rparr>) e = except_prints env e"
  by (cases e) (simp_all add: except_prints_def)

lemma print_lines_budget [simp]:
  "print_lines (env\<lparr>CHUNK_SIZE_CHARACTERS := b\<rparr>) w ls = print_lines env w ls"
  by (induction ls) (simp_all cong: option.case_cong)

lemma except_clause_budget [simp]:
  "except_clause (env\<lparr>CHUNK_SIZE_CHARACTERS := b\<rparr>) w e txt = except_clause env w e txt"
  by (simp add: except_clause_def)

lemma call_ollama_budget [simp]:
  "call_ollama (env\<lparr>CHUNK_SIZE_CHARACTERS := b\<rparr>) w p m t n = call_ollama env w p m t n"
  by (simp add: call_ollama_def Let_def cong: sum.case_cong)

lemma document_file_with_ollama_budget:
  "document_file_with_ollama (env\<lparr>CHUNK_SIZE_CHARACTERS := b\<rparr>) w content f t
     = document_file_with_ollama env w content f t"
  by (simp add: document_file_with_ollama_def Let_def split_beta cong: sum.case_cong)

lemma doc_paths_budget [simp]:
  "doc_paths (env\<lparr>CHUNK_SIZE_CHARACTERS := b\<rparr>) s d sfx f = doc_paths env s d sfx f"
  by (simp add: doc_paths_def)

lemma read_file_content_budget [simp]:
  "read_file_content (env\<lparr>CHUNK_SIZE_CHARACTERS := b\<rparr>) w f = read_file_content env w f"
  by (simp add: read_file_content_def cong: read_outcome.case_cong)

lemma save_markdown_budget [simp]:
  "save_markdown (env\<lparr>CHUNK_SIZE_CHARACTERS := b\<rparr>) w p c = save_markdown env w p c"
  by (simp add: save_markdown_def)

lemma deep_doc_header_budget [simp]:
  "deep_doc_header (env\<lparr>CHUNK_SIZE_CHARACTERS := b\<rparr>) rel t = deep_doc_header env rel t"
  by (simp add: deep_doc_header_def)

lemma deep_process_file_budget:
  "deep_process_file (env\<lparr>CHUNK_SIZE_CHARACTERS := b\<rparr>) s d file_path st
     = deep_process_file env s d file_path st"
  by (simp add: deep_process_file_def document_file_with_ollama_budget Let_def split_beta
      cong: option.case_cong sum.case_cong)

lemma deep_process_file_raised:
  assumes "read_file_content env w file_path = Some content"
    and "document_file_with_ollama env w content (os_path_basename env file_path)
           (get_file_type (unicode_data env)
              (snd (os_path_splitext env (os_path_basename env file_path)))) = (Inl e, w1)"
  shows "deep_process_file env s d file_path (info, w) = (Inl e, w1)"
  using assms by (simp add: deep_process_file_def Let_def split_beta)

lemma deep_process_file_returned:
  assumes "read_file_content env w file_path = Some content"
    and "document_file_with_ollama env w content (os_path_basename env file_path)
           (get_file_type (unicode_data env)
              (snd (os_path_splitext env (os_path_basename env file_path)))) = (Inr parts, w1)"
  shows "posted (snd (deep_process_file env s d file_path (info, w))) = posted w1
     \<and> (written (snd (deep_process_file env s d file_path (info, w)))
           = written w @ [(snd (doc_paths env s d (str ''_deep_doc.md'') file_path),
                deep_doc_header env (fst (doc_paths env s d (str ''_deep_doc.md'') file_path))
                  (get_file_type (unicode_data env)
                     (snd (os_path_splitext env (os_path_basename env file_path))))
                @ parts)]
         \<or> written (snd (deep_process_file env s d file_path (info, w))) = written w)"
proof -
  let ?p = "doc_paths env s d (str ''_deep_doc.md'') file_path"
  let ?t = "get_file_type (unicode_data env)
      (snd (os_path_splitext env (os_path_basename env file_path)))"
  let ?doc = "deep_doc_header env (fst ?p) ?t @ parts"
  let ?sv = "save_markdown env w1 (snd ?p) ?doc"
  have wr: "written w1 = written w"
    using document_file_with_ollama_written [of env w content "os_path_basename env file_path" ?t]
      assms(2) by simp
  have e: "snd (deep_process_file env s d file_path (info, w)) = snd ?sv"
    using assms by (simp add: deep_process_file_def Let_def split_beta split: sum.splits)
  have sv: "?sv = (fst ?sv, snd ?sv)" by simp
  from sv have "posted (snd ?sv) = posted w1
      \<and> (written (snd ?sv) = written w @ [(snd ?p, ?doc)] \<or> written (snd ?sv) = written w)"
    by (cases rule: save_markdown_cases) (simp_all add: wr)
  with e show ?thesis by simp
qed

text \<open>
  C8. DeepDocumentation bypasses chunking, as far as the code has it. The chunk budget
  has no part in the deep pipeline: neither \<open>document_file_with_ollama\<close> nor the
  round of the loop that calls it depends on \<open>CHUNK_SIZE_CHARACTERS\<close>, and each of
  the three prompts holds the whole content of the file. When
  \<open>document_file_with_ollama\<close> returns, it has posted exactly three requests, the
  summary, the components and the examples prompt in this order, and its result is the
  three sections in the same order, each with what its call returned, an error text
  included; it returns whenever no \<open>print\<close> raises. It does not do so for every
  outcome of a call: no \<open>try\<close> stands around the three calls, so when the
  \<open>print\<close> in an \<open>except\<close> clause of \<open>call_ollama\<close> raises during the
  first call, the function has posted one request only and raises, and the round of the
  loop raises with it and writes no document.
\<close>

theorem deep_documentation_whole_file:
  "(document_file_with_ollama env w content file_name file_type = (Inr doc, w') \<longrightarrow>
      (\<exists>summary components_doc examples_doc w1 w2.
         call_ollama env w (summary_prompt content file_name file_type)
             (OLLAMA_MODEL env) (str ''0.2'') 1024 = (Inr summary, w1)
         \<and> call_ollama env w1 (components_prompt content file_name file_type)
             (OLLAMA_MODEL env) (str ''0.2'') 1024 = (Inr components_doc, w2)
         \<and> call_ollama env w2 (examples_prompt content file_name file_type)
             (OLLAMA_MODEL env) (str ''0.3'') 1024 = (Inr examples_doc, w')
         \<and> doc = str ''## Overall Summary'' @ NL @ NL @ summary @ NL @ NL @ str ''---'' @ NL @ NL
           @ str ''## Properties, Variables, and Functions'' @ NL @ NL @ components_doc @ NL @ NL
           @ str ''---'' @ NL @ NL
           @ str ''## Examples on How to Use the Code'' @ NL @ NL @ examples_doc @ NL @ NL
           @ str ''---'' @ NL @ NL
         \<and> posted w'
             = posted w @ [call_ollama_payload (summary_prompt content file_name file_type)
                         (OLLAMA_MODEL env) (str ''0.2'') 1024,
                       call_ollama_payload (components_prompt content file_name file_type)
                         (OLLAMA_MODEL env) (str ''0.2'') 1024,
                       call_ollama_payload (examples_prompt content file_name file_type)
                         (OLLAMA_MODEL env) (str ''0.3'') 1024]))
   \<and> (fst (call_ollama env w (summary_prompt content file_name file_type)
              (OLLAMA_MODEL env) (str ''0.2'') 1024) = Inl e \<longrightarrow>
        document_file_with_ollama env w content file_name file_type
          = (Inl e, log_post w (call_ollama_payload (summary_prompt content file_name file_type)
               (OLLAMA_MODEL env) (str ''0.2'') 1024)))
   \<and> (fst (document_file_with_ollama env w content file_name file_type) = Inl e \<longrightarrow>
        (\<exists>wi prompt temperature.
           fst (call_ollama env wi prompt (OLLAMA_MODEL env) temperature 1024) = Inl e))
   \<and> ((\<forall>w line. sys_print env w line = None) \<longrightarrow>
        (\<exists>doc. fst (document_file_with_ollama env w content file_name file_type) = Inr doc))
   \<and> (\<exists>a b. summary_prompt content file_name file_type = a @ content @ b)
   \<and> (\<exists>a b. components_prompt content file_name file_type = a @ content @ b)
   \<and> (\<exists>a b. examples_prompt content file_name file_type = a @ content @ b)
   \<and> document_file_with_ollama (env\<lparr>CHUNK_SIZE_CHARACTERS := b\<rparr>) w content file_name file_type
       = document_file_with_ollama env w content file_name file_type
   \<and> deep_process_file (env\<lparr>CHUNK_SIZE_CHARACTERS := b\<rparr>) s d file_path (info, w)
       = deep_process_file env s d file_path (info, w)
   \<and> (read_file_content env w file_path = Some content
      \<and> document_file_with_ollama env w content (os_path_basename env file_path)
            (get_file_type (unicode_data env) (snd (os_path_splitext env (os_path_basename env file_path)))) = (Inr parts, wd) \<longrightarrow>
        posted (snd (deep_process_file env s d file_path (info, w))) = posted wd
        \<and> (written (snd (deep_process_file env s d file_path (info, w)))
              = written w @ [(snd (doc_paths env s d (str ''_deep_doc.md'') file_path),
                   deep_doc_header env (fst (doc_paths env s d (str ''_deep_doc.md'') file_path))
                     (get_file_type (unicode_data env) (snd (os_path_splitext env (os_path_basename env file_path))))
                   @ parts)]
            \<or> written (snd (deep_process_file env s d file_path (info, w))) = written w))
   \<and> (read_file_content env w file_path = Some content
      \<and> document_file_with_ollama env w content (os_path_basename env file_path)
            (get_file_type (unicode_data env) (snd (os_path_splitext env (os_path_basename env file_path)))) = (Inl e, wd) \<longrightarrow>
        deep_process_file env s d file_path (info, w) = (Inl e, wd))"
proof (intro conjI)
  show "(document_file_with_ollama env w content file_name file_type = (Inr doc, w') \<longrightarrow>
          (\<exists>summary components_doc examples_doc w1 w2.
             call_ollama env w (summary_prompt content file_name file_type)
                 (OLLAMA_MODEL env) (str ''0.2'') 1024 = (Inr summary, w1)
             \<and> call_ollama env w1 (components_prompt content file_name file_type)
                 (OLLAMA_MODEL env) (str ''0.2'') 1024 = (Inr components_doc, w2)
             \<and> call_ollama env w2 (examples_prompt content file_name file_type)
                 (OLLAMA_MODEL env) (str ''0.3'') 1024 = (Inr examples_doc, w')
             \<and> doc = str ''## Overall Summary'' @ NL @ NL @ summary @ NL @ NL @ str ''---'' @ NL @ NL
               @ str ''## Properties, Variables, and Functions'' @ NL @ NL @ components_doc @ NL @ NL
               @ str ''---'' @ NL @ NL
               @ str ''## Examples on How to Use the Code'' @ NL @ NL @ examples_doc @ NL @ NL
               @ str ''---'' @ NL @ NL
             \<and> posted w'
                 = posted w @ [call_ollama_payload (summary_prompt content file_name file_type)
                             (OLLAMA_MODEL env) (str ''0.2'') 1024,
                           call_ollama_payload (components_prompt content file_name file_type)
                             (OLLAMA_MODEL env) (str ''0.2'') 1024,
                           call_ollama_payload (examples_prompt content file_name file_type)
                             (OLLAMA_MODEL env) (str ''0.3'') 1024]))"
    by (rule impI) (rule document_file_with_ollama_returns)
  show "(fst (call_ollama env w (summary_prompt content file_name file_type)
                  (OLLAMA_MODEL env) (str ''0.2'') 1024) = Inl e \<longrightarrow>
            document_file_with_ollama env w content file_name file_type
              = (Inl e, log_post w (call_ollama_payload (summary_prompt content file_name file_type)
                   (OLLAMA_MODEL env) (str ''0.2'') 1024)))"
    by (rule impI) (rule document_file_with_ollama_first)
  show "(fst (document_file_with_ollama env w content file_name file_type) = Inl e \<longrightarrow>
            (\<exists>wi prompt temperature.
               fst (call_ollama env wi prompt (OLLAMA_MODEL env) temperature 1024) = Inl e))"
    by (rule impI) (rule document_file_with_ollama_raises)
  show "((\<forall>w line. sys_print env w line = None) \<longrightarrow>
            (\<exists>doc. fst (document_file_with_ollama env w content file_name file_type) = Inr doc))"
    by (rule impI) (rule document_file_with_ollama_quiet)
  show "(\<exists>a b. summary_prompt content file_name file_type = a @ content @ b)"
    by (rule summary_prompt_content)
  show "(\<exists>a b. components_prompt content file_name file_type = a @ content @ b)"
    by (rule components_prompt_content)
  show "(\<exists>a b. examples_prompt content file_name file_type = a @ content @ b)"
    by (rule examples_prompt_content)
  show "document_file_with_ollama (env\<lparr>CHUNK_SIZE_CHARACTERS := b\<rparr>) w content file_name file_type
           = document_file_with_ollama env w content file_name file_type"
    by (rule document_file_with_ollama_budget)
  show "deep_process_file (env\<lparr>CHUNK_SIZE_CHARACTERS := b\<rparr>) s d file_path (info, w)
           = deep_process_file env s d file_path (info, w)"
    by (rule deep_process_file_budget)
  show "(read_file_content env w file_path = Some content
          \<and> document_file_with_ollama env w content (os_path_basename env file_path)
                (get_file_type (unicode_data env) (snd (os_path_splitext env (os_path_basename env file_path)))) = (Inr parts, wd) \<longrightarrow>
            posted (snd (deep_process_file env s d file_path (info, w))) = posted wd
            \<and> (written (snd (deep_process_file env s d file_path (info, w)))
                  = written w @ [(snd (doc_paths env s d (str ''_deep_doc.md'') file_path),
                       deep_doc_header env (fst (doc_paths env s d (str ''_deep_doc.md'') file_path))
                         (get_file_type (unicode_data env) (snd (os_path_splitext env (os_path_basename env file_path))))
                       @ parts)]
                \<or> written (snd (deep_process_file env s d file_path (info, w))) = written w))"
    by (rule impI, erule conjE) (rule deep_process_file_returned)
  show "(read_file_content env w file_path = Some content
          \<and> document_file_with_ollama env w content (os_path_basename env file_path)
                (get_file_type (unicode_data env) (snd (os_path_splitext env (os_path_basename env file_path)))) = (Inl e, wd) \<longrightarrow>
            deep_process_file env s d file_path (info, w) = (Inl e, wd))"
    by (rule impI, erule conjE) (rule deep_process_file_raised)
qed

text \<open>
  Witness of C8: the readable file \<open>b.py\<close> with the content \<open>x LF\<close>. With an
  endpoint that answers \<open>ok\<close> three requests are posted, over the whole content, and
  the three sections hold the three answers. With an endpoint that answers with status
  500 and a body that the standard output cannot encode, the first call raises, one request
  is posted, and the round of the loop raises.
\<close>

theorem deep_documentation_whole_file_witness:
  "(\<forall>w line. sys_print index_example_env w line = None)
   \<and> fst (document_file_with_ollama index_example_env empty_world (str ''x'' @ NL) (str ''b.py'') (str ''python''))
       = Inr (str ''## Overall Summary'' @ NL @ NL @ str ''ok'' @ NL @ NL @ str ''---'' @ NL @ NL
           @ str ''## Properties, Variables, and Functions'' @ NL @ NL @ str ''ok'' @ NL @ NL
           @ str ''---'' @ NL @ NL
           @ str ''## Examples on How to Use the Code'' @ NL @ NL @ str ''ok'' @ NL @ NL
           @ str ''---'' @ NL @ NL)
   \<and> posted (snd (document_file_with_ollama index_example_env empty_world (str ''x'' @ NL) (str ''b.py'') (str ''python'')))
       = [call_ollama_payload (summary_prompt (str ''x'' @ NL) (str ''b.py'') (str ''python''))
                         (OLLAMA_MODEL index_example_env) (str ''0.2'') 1024,
                       call_ollama_payload (components_prompt (str ''x'' @ NL) (str ''b.py'') (str ''python''))
                         (OLLAMA_MODEL index_example_env) (str ''0.2'') 1024,
                       call_ollama_payload (examples_prompt (str ''x'' @ NL) (str ''b.py'') (str ''python''))
                         (OLLAMA_MODEL index_example_env) (str ''0.3'') 1024]
   \<and> read_file_content index_example_env empty_world (str ''src/b.py'') = Some (str ''x'' @ NL)
   \<and> posted (snd (deep_process_file index_example_env (str ''src'') (str ''out'') (str ''src/b.py'')
         ([], empty_world)))
       = [call_ollama_payload (summary_prompt (str ''x'' @ NL) (str ''b.py'') (str ''python''))
                         (OLLAMA_MODEL index_example_env) (str ''0.2'') 1024,
                       call_ollama_payload (components_prompt (str ''x'' @ NL) (str ''b.py'') (str ''python''))
                         (OLLAMA_MODEL index_example_env) (str ''0.2'') 1024,
                       call_ollama_payload (examples_prompt (str ''x'' @ NL) (str ''b.py'') (str ''python''))
                         (OLLAMA_MODEL index_example_env) (str ''0.3'') 1024]
   \<and> fst (call_ollama ascii_stdout_env empty_world (summary_prompt (str ''x'' @ NL) (str ''b.py'') (str ''python''))
          (OLLAMA_MODEL ascii_stdout_env) (str ''0.2'') 1024)
       = Inl (Exception ([39] @ str ''ascii'' @ [39] @ str '' codec can'' @ [39]
                 @ str ''t encode character '' @ [39, 92] @ str ''u2603'' @ [39]
                 @ str '' in position 118: ordinal not in range(128)''))
   \<and> document_file_with_ollama ascii_stdout_env empty_world (str ''x'' @ NL) (str ''b.py'') (str ''python'')
       = (Inl (Exception ([39] @ str ''ascii'' @ [39] @ str '' codec can'' @ [39]
                 @ str ''t encode character '' @ [39, 92] @ str ''u2603'' @ [39]
                 @ str '' in position 118: ordinal not in range(128)'')),
          log_post empty_world (call_ollama_payload (summary_prompt (str ''x'' @ NL) (str ''b.py'') (str ''python'')) (OLLAMA_MODEL ascii_stdout_env) (str ''0.2'') 1024))
   \<and> (\<exists>wi prompt temperature.
         fst (call_ollama ascii_stdout_env wi prompt (OLLAMA_MODEL ascii_stdout_env) temperature 1024)
           = Inl (Exception ([39] @ str ''ascii'' @ [39] @ str '' codec can'' @ [39]
                 @ str ''t encode character '' @ [39, 92] @ str ''u2603'' @ [39]
                 @ str '' in position 118: ordinal not in range(128)'')))
   \<and> read_file_content ascii_stdout_env empty_world (str ''src/b.py'') = Some (str ''x'' @ NL)
   \<and> deep_process_file ascii_stdout_env (str ''src'') (str ''out'') (str ''src/b.py'') ([], empty_world)
       = (Inl (Exception ([39] @ str ''ascii'' @ [39] @ str '' codec can'' @ [39]
                 @ str ''t encode character '' @ [39, 92] @ str ''u2603'' @ [39]
                 @ str '' in position 118: ordinal not in range(128)'')),
          log_post empty_world (call_ollama_payload (summary_prompt (str ''x'' @ NL) (str ''b.py'') (str ''python'')) (OLLAMA_MODEL ascii_stdout_env) (str ''0.2'') 1024))"
proof -
  let ?m = "document_file_with_ollama index_example_env empty_world (str ''x'' @ NL) (str ''b.py'') (str ''python'')"
  let ?a = "document_file_with_ollama ascii_stdout_env empty_world (str ''x'' @ NL) (str ''b.py'') (str ''python'')"
  let ?X = "(Exception ([39] @ str ''ascii'' @ [39] @ str '' codec can'' @ [39]
                 @ str ''t encode character '' @ [39, 92] @ str ''u2603'' @ [39]
                 @ str '' in position 118: ordinal not in range(128)''))"
  note t = deep_documentation_whole_file [where env = index_example_env and w = empty_world
      and content = "str ''x'' @ NL" and file_name = "str ''b.py''" and file_type = "str ''python''"
      and file_path = "str ''src/b.py''" and s = "str ''src''" and d = "str ''out''"
      and info = "[]"]
  note u = deep_documentation_whole_file [where env = ascii_stdout_env and w = empty_world
      and content = "str ''x'' @ NL" and file_name = "str ''b.py''" and file_type = "str ''python''"
      and file_path = "str ''src/b.py''" and s = "str ''src''" and d = "str ''out''"
      and info = "[]" and e = ?X]
  have q: "\<forall>w line. sys_print index_example_env w line = None"
    by (simp add: index_example_env_def)
  have c: "\<And>w p m t n. call_ollama index_example_env w p m t n
      = (Inr (str ''ok''), log_post w (call_ollama_payload p m t n))"
    by (simp add: index_example_env_def post_ok_call)
  from t [THEN conjunct2, THEN conjunct2, THEN conjunct2, THEN conjunct1, THEN mp, OF q] obtain doc where f: "fst ?m = Inr doc" by blast
  then have r: "?m = (Inr doc, snd ?m)" by (simp add: prod_eq_iff)
  from t [where doc = doc and w' = "snd ?m", THEN conjunct1, THEN mp, OF r]
  obtain summary components_doc examples_doc w1 w2 where
    c1: "call_ollama index_example_env empty_world (summary_prompt (str ''x'' @ NL) (str ''b.py'') (str ''python''))
             (OLLAMA_MODEL index_example_env) (str ''0.2'') 1024 = (Inr summary, w1)"
    and c2: "call_ollama index_example_env w1 (components_prompt (str ''x'' @ NL) (str ''b.py'') (str ''python''))
             (OLLAMA_MODEL index_example_env) (str ''0.2'') 1024 = (Inr components_doc, w2)"
    and c3: "call_ollama index_example_env w2 (examples_prompt (str ''x'' @ NL) (str ''b.py'') (str ''python''))
             (OLLAMA_MODEL index_example_env) (str ''0.3'') 1024 = (Inr examples_doc, snd ?m)"
    and d: "doc = str ''## Overall Summary'' @ NL @ NL @ summary @ NL @ NL @ str ''---'' @ NL @ NL
           @ str ''## Properties, Variables, and Functions'' @ NL @ NL @ components_doc @ NL @ NL
           @ str ''---'' @ NL @ NL
           @ str ''## Examples on How to Use the Code'' @ NL @ NL @ examples_doc @ NL @ NL
           @ str ''---'' @ NL @ NL"
    and p: "posted (snd ?m)
             = posted empty_world @ [call_ollama_payload (summary_prompt (str ''x'' @ NL) (str ''b.py'') (str ''python''))
                         (OLLAMA_MODEL index_example_env) (str ''0.2'') 1024,
                       call_ollama_payload (components_prompt (str ''x'' @ NL) (str ''b.py'') (str ''python''))
                         (OLLAMA_MODEL index_example_env) (str ''0.2'') 1024,
                       call_ollama_payload (examples_prompt (str ''x'' @ NL) (str ''b.py'') (str ''python''))
                         (OLLAMA_MODEL index_example_env) (str ''0.3'') 1024]"
    by blast
  from c1 c2 c3 have "summary = str ''ok''" "components_doc = str ''ok''"
      "examples_doc = str ''ok''"
    by (simp_all add: c)
  with d f have 1: "fst ?m = Inr (str ''## Overall Summary'' @ NL @ NL @ str ''ok'' @ NL @ NL @ str ''---'' @ NL @ NL
           @ str ''## Properties, Variables, and Functions'' @ NL @ NL @ str ''ok'' @ NL @ NL
           @ str ''---'' @ NL @ NL
           @ str ''## Examples on How to Use the Code'' @ NL @ NL @ str ''ok'' @ NL @ NL
           @ str ''---'' @ NL @ NL)"
    by simp
  from p have 2: "posted (snd ?m) = [call_ollama_payload (summary_prompt (str ''x'' @ NL) (str ''b.py'') (str ''python''))
                         (OLLAMA_MODEL index_example_env) (str ''0.2'') 1024,
                       call_ollama_payload (components_prompt (str ''x'' @ NL) (str ''b.py'') (str ''python''))
                         (OLLAMA_MODEL index_example_env) (str ''0.2'') 1024,
                       call_ollama_payload (examples_prompt (str ''x'' @ NL) (str ''b.py'') (str ''python''))
                         (OLLAMA_MODEL index_example_env) (str ''0.3'') 1024]"
    by (simp add: empty_world_def)
  have h: "read_file_content index_example_env empty_world (str ''src/b.py'') = Some (str ''x'' @ NL)"
    by (simp add: read_index_example str_def [of "''x''"])
  have r': "document_file_with_ollama index_example_env empty_world (str ''x'' @ NL)
        (os_path_basename index_example_env (str ''src/b.py''))
        (get_file_type (unicode_data index_example_env)
           (snd (os_path_splitext index_example_env (os_path_basename index_example_env (str ''src/b.py'')))))
      = (Inr doc, snd ?m)"
    using r by (simp add: index_example_fields names_index_example type_py)
  from t [where parts = doc and wd = "snd ?m", THEN conjunct2, THEN conjunct2, THEN conjunct2, THEN conjunct2, THEN conjunct2, THEN conjunct2, THEN conjunct2, THEN conjunct2, THEN conjunct2, THEN conjunct1, THEN mp, OF conjI [OF h r'],
      THEN conjunct1]
  have 3: "posted (snd (deep_process_file index_example_env (str ''src'') (str ''out'') (str ''src/b.py'')
         ([], empty_world)))
       = [call_ollama_payload (summary_prompt (str ''x'' @ NL) (str ''b.py'') (str ''python''))
                         (OLLAMA_MODEL index_example_env) (str ''0.2'') 1024,
                       call_ollama_payload (components_prompt (str ''x'' @ NL) (str ''b.py'') (str ''python''))
                         (OLLAMA_MODEL index_example_env) (str ''0.2'') 1024,
                       call_ollama_payload (examples_prompt (str ''x'' @ NL) (str ''b.py'') (str ''python''))
                         (OLLAMA_MODEL index_example_env) (str ''0.3'') 1024]"
    by (simp add: 2)
  have 4: "fst (call_ollama ascii_stdout_env empty_world (summary_prompt (str ''x'' @ NL) (str ''b.py'') (str ''python''))
          (OLLAMA_MODEL ascii_stdout_env) (str ''0.2'') 1024) = Inl ?X"
    by (simp add: ascii_stdout_call)
  note 5 = u [THEN conjunct2, THEN conjunct1, THEN mp, OF 4]
  have 50: "fst ?a = Inl ?X" by (simp add: 5)
  note 6 = u [THEN conjunct2, THEN conjunct2, THEN conjunct1, THEN mp, OF 50]
  have g: "read_file_content ascii_stdout_env empty_world (str ''src/b.py'') = Some (str ''x'' @ NL)"
    by (simp add: read_file_content_def ascii_stdout_env_fields)
  have r'': "document_file_with_ollama ascii_stdout_env empty_world (str ''x'' @ NL)
        (os_path_basename ascii_stdout_env (str ''src/b.py''))
        (get_file_type (unicode_data ascii_stdout_env)
           (snd (os_path_splitext ascii_stdout_env (os_path_basename ascii_stdout_env (str ''src/b.py'')))))
      = (Inl ?X, log_post empty_world (call_ollama_payload (summary_prompt (str ''x'' @ NL) (str ''b.py'') (str ''python'')) (OLLAMA_MODEL ascii_stdout_env) (str ''0.2'') 1024))"
    using 5 by (simp add: ascii_stdout_env_fields names_index_example type_py)
  note 7 = u [where wd = "log_post empty_world (call_ollama_payload (summary_prompt (str ''x'' @ NL) (str ''b.py'') (str ''python'')) (OLLAMA_MODEL ascii_stdout_env) (str ''0.2'') 1024)", THEN conjunct2, THEN conjunct2, THEN conjunct2, THEN conjunct2, THEN conjunct2, THEN conjunct2, THEN conjunct2, THEN conjunct2, THEN conjunct2, THEN conjunct2, THEN mp, OF conjI [OF g r'']]
  show ?thesis
    by (intro conjI) (rule q 1 2 h 3 4 5 6 g 7)+
qed

text \<open>
  The run that leaves C8: the endpoint answers the first request with status 500 and the
  body U+2603, and the standard output has the encoding \<open>ascii\<close>. The \<open>except\<close>
  clause of \<open>call_ollama\<close> prints the body and the \<open>print\<close> raises a
  \<open>UnicodeEncodeError\<close>; \<open>document_file_with_ollama\<close> has posted one request, not
  three, and raises, and the round of the loop on \<open>src/b.py\<close> raises and has written
  nothing.
\<close>

theorem deep_documentation_print_failure:
  "requests_post ascii_stdout_env empty_world (OLLAMA_API_URL ascii_stdout_env) (call_ollama_payload (summary_prompt (str ''x'' @ NL) (str ''b.py'') (str ''python'')) (OLLAMA_MODEL ascii_stdout_env) (str ''0.2'') 1024) = PostResponse snowman_500
   \<and> status_code snowman_500 = 500
   \<and> resp_text snowman_500 = [0x2603]
   \<and> sys_print ascii_stdout_env
         (log_post empty_world (call_ollama_payload (summary_prompt (str ''x'' @ NL) (str ''b.py'') (str ''python'')) (OLLAMA_MODEL ascii_stdout_env) (str ''0.2'') 1024))
         (str ''HTTP error occurred: 500 Server Error: Internal Server Error for url: http://localhost:11434/api/generate - Response: '' @ [0x2603])
       = Some ([39] @ str ''ascii'' @ [39] @ str '' codec can'' @ [39]
                 @ str ''t encode character '' @ [39, 92] @ str ''u2603'' @ [39]
                 @ str '' in position 118: ordinal not in range(128)'')
   \<and> document_file_with_ollama ascii_stdout_env empty_world (str ''x'' @ NL) (str ''b.py'') (str ''python'')
       = (Inl (Exception ([39] @ str ''ascii'' @ [39] @ str '' codec can'' @ [39]
                 @ str ''t encode character '' @ [39, 92] @ str ''u2603'' @ [39]
                 @ str '' in position 118: ordinal not in range(128)'')),
          \<lparr>posted = [call_ollama_payload (summary_prompt (str ''x'' @ NL) (str ''b.py'') (str ''python'')) (OLLAMA_MODEL ascii_stdout_env) (str ''0.2'') 1024],
           written = []\<rparr>)
   \<and> length (posted (snd (document_file_with_ollama ascii_stdout_env empty_world (str ''x'' @ NL) (str ''b.py'') (str ''python'')))) = 1
   \<and> read_file_content ascii_stdout_env empty_world (str ''src/b.py'') = Some (str ''x'' @ NL)
   \<and> deep_process_file ascii_stdout_env (str ''src'') (str ''out'') (str ''src/b.py'') ([], empty_world)
       = (Inl (Exception ([39] @ str ''ascii'' @ [39] @ str '' codec can'' @ [39]
                 @ str ''t encode character '' @ [39, 92] @ str ''u2603'' @ [39]
                 @ str '' in position 118: ordinal not in range(128)'')),
          \<lparr>posted = [call_ollama_payload (summary_prompt (str ''x'' @ NL) (str ''b.py'') (str ''python'')) (OLLAMA_MODEL ascii_stdout_env) (str ''0.2'') 1024],
           written = []\<rparr>)"
proof -
  have 1: "requests_post ascii_stdout_env empty_world (OLLAMA_API_URL ascii_stdout_env) (call_ollama_payload (summary_prompt (str ''x'' @ NL) (str ''b.py'') (str ''python'')) (OLLAMA_MODEL ascii_stdout_env) (str ''0.2'') 1024) = PostResponse snowman_500"
    by (simp add: ascii_stdout_env_fields post_snowman_500_def)
  have 2: "status_code snowman_500 = 500" "resp_text snowman_500 = [0x2603]"
    by (simp_all add: snowman_500_def)
  have 3: "sys_print ascii_stdout_env
         (log_post empty_world (call_ollama_payload (summary_prompt (str ''x'' @ NL) (str ''b.py'') (str ''python'')) (OLLAMA_MODEL ascii_stdout_env) (str ''0.2'') 1024))
         (str ''HTTP error occurred: 500 Server Error: Internal Server Error for url: http://localhost:11434/api/generate - Response: '' @ [0x2603])
       = Some ([39] @ str ''ascii'' @ [39] @ str '' codec can'' @ [39]
                 @ str ''t encode character '' @ [39, 92] @ str ''u2603'' @ [39]
                 @ str '' in position 118: ordinal not in range(128)'')"
    by (simp add: ascii_stdout_env_fields ascii_stdout_def is_ascii_def str_nat.simps str_def)
  have 4: "document_file_with_ollama ascii_stdout_env empty_world (str ''x'' @ NL) (str ''b.py'') (str ''python'')
       = (Inl (Exception ([39] @ str ''ascii'' @ [39] @ str '' codec can'' @ [39]
                 @ str ''t encode character '' @ [39, 92] @ str ''u2603'' @ [39]
                 @ str '' in position 118: ordinal not in range(128)'')),
          \<lparr>posted = [call_ollama_payload (summary_prompt (str ''x'' @ NL) (str ''b.py'') (str ''python'')) (OLLAMA_MODEL ascii_stdout_env) (str ''0.2'') 1024],
           written = []\<rparr>)"
    by (simp add: document_file_with_ollama_def ascii_stdout_call log_post_def empty_world_def)
  have 5: "length (posted (snd (document_file_with_ollama ascii_stdout_env empty_world (str ''x'' @ NL) (str ''b.py'') (str ''python'')))) = 1"
    by (simp add: 4)
  have 6: "read_file_content ascii_stdout_env empty_world (str ''src/b.py'') = Some (str ''x'' @ NL)"
    by (simp add: read_file_content_def ascii_stdout_env_fields)
  have 7: "deep_process_file ascii_stdout_env (str ''src'') (str ''out'') (str ''src/b.py'') ([], empty_world)
       = (Inl (Exception ([39] @ str ''ascii'' @ [39] @ str '' codec can'' @ [39]
                 @ str ''t encode character '' @ [39, 92] @ str ''u2603'' @ [39]
                 @ str '' in position 118: ordinal not in range(128)'')),
          \<lparr>posted = [call_ollama_payload (summary_prompt (str ''x'' @ NL) (str ''b.py'') (str ''python'')) (OLLAMA_MODEL ascii_stdout_env) (str ''0.2'') 1024],
           written = []\<rparr>)"
    by (simp add: deep_process_file_def 6 Let_def split_beta ascii_stdout_env_fields
        names_index_example type_py 4)
  show ?thesis
    by (intro conjI) (rule 1 2 3 4 5 6 7)+
qed

end
